theory Spec2Isabelle
  imports Main "HOL-Library.Multiset" "HOL-Library.Char_ord" "HOL-Library.List_Lexorder"
begin

section \<open>The EDI document reference tool (reference.py)\<close>

text \<open>
  The program is a fixed table of EDI standards and documents with three read-only
  operations (\<open>list_standards\<close>, \<open>list_edi_documents\<close>, \<open>search_edi_code\<close>) and a
  command line that picks one of them.

  Conventions of the embedding.
  \<^item> A Python \<open>str\<close> is a \<open>string\<close> holding its UTF-8 bytes. Every string of the table is
    ASCII except the arrow of the transaction flows and the bullet of the printed
    entries, which are spelled out as their three bytes. On ASCII text, bytes and code
    points coincide, and \<open>str.upper\<close>, \<open>str.lower\<close>, \<open>str.isdigit\<close>, \<open>in\<close> and \<open><\<close>
    are the functions below; theorems about text that comes from the command line
    assume that text to be ASCII (\<open>ascii\<close>).
  \<^item> A dict is an association list in insertion order, which is the order Python
    iterates it in.
  \<^item> Standard output is the list of the texts given to \<open>print\<close>, one element per call
    (\<open>print\<close> ends each with a newline of its own). A line feed inside a text is
    the character \<open>CHR 0x0A\<close>.
  \<^item> An uncaught exception is a value \<open>Inl e\<close>; what was printed before it is not kept.
    Writing to standard output is taken to succeed: a terminal encoding that cannot
    take the bullet or the arrow is outside the embedding.
  \<^item> \<open>textwrap.fill(text, width=70, subsequent_indent='    ')\<close> is library code; the
    printing functions take it as the parameter \<open>fill\<close>. Every description of the
    table is one line of at most 59 characters, which \<open>fill\<close> returns as it is, so the
    closed examples below take the identity for it.
\<close>

subsection \<open>Text\<close>

definition ascii :: "string \<Rightarrow> bool" where
  "ascii s = list_all (\<lambda>c. of_char c < (128::nat)) s"

definition upper_char :: "char \<Rightarrow> char" where
  "upper_char c =
     (case map_of (zip ''abcdefghijklmnopqrstuvwxyz'' ''ABCDEFGHIJKLMNOPQRSTUVWXYZ'') c of
        Some u \<Rightarrow> u | None \<Rightarrow> c)"

definition lower_char :: "char \<Rightarrow> char" where
  "lower_char c =
     (case map_of (zip ''ABCDEFGHIJKLMNOPQRSTUVWXYZ'' ''abcdefghijklmnopqrstuvwxyz'') c of
        Some l \<Rightarrow> l | None \<Rightarrow> c)"

text \<open>\<open>s.upper()\<close> and \<open>s.lower()\<close>.\<close>

definition upper :: "string \<Rightarrow> string" where
  "upper s = map upper_char s"

definition lower :: "string \<Rightarrow> string" where
  "lower s = map lower_char s"

text \<open>\<open>s.isdigit()\<close>: at least one character, and all of them digits.\<close>

definition is_digit_char :: "char \<Rightarrow> bool" where
  "is_digit_char c = (CHR ''0'' \<le> c \<and> c \<le> CHR ''9'')"

definition isdigit :: "string \<Rightarrow> bool" where
  "isdigit s = (s \<noteq> [] \<and> list_all is_digit_char s)"

text \<open>The value of a string of decimal digits, most significant digit first.\<close>

definition decimal :: "string \<Rightarrow> int" where
  "decimal s = foldl (\<lambda>n c. 10 * n + (int (of_char c) - 48)) 0 s"

fun starts_with :: "string \<Rightarrow> string \<Rightarrow> bool" where
  "starts_with [] s = True"
| "starts_with (x # xs) [] = False"
| "starts_with (x # xs) (y # ys) = (x = y \<and> starts_with xs ys)"

text \<open>\<open>a in b\<close> on two strings: \<open>a\<close> occurs in \<open>b\<close> as a contiguous substring.\<close>

fun str_in :: "string \<Rightarrow> string \<Rightarrow> bool" where
  "str_in a [] = (a = [])"
| "str_in a (c # cs) = (starts_with a (c # cs) \<or> str_in a cs)"

text \<open>\<open>sep.join(xs)\<close>.\<close>

fun join :: "string \<Rightarrow> string list \<Rightarrow> string" where
  "join sep [] = []"
| "join sep [x] = x"
| "join sep (x # y # ys) = x @ sep @ join sep (y # ys)"

text \<open>Truthiness of an optional string: \<open>None\<close> and the empty string are false.\<close>

fun truthy :: "string option \<Rightarrow> bool" where
  "truthy None = False"
| "truthy (Some s) = (s \<noteq> [])"

definition nl :: string where
  "nl = [CHR 0x0A]"

definition arrow :: string where
  "arrow = [CHR 0xE2, CHR 0x86, CHR 0x92]"

definition bullet :: string where
  "bullet = [CHR 0xE2, CHR 0x80, CHR 0xA2]"

subsection \<open>Data model\<close>

datatype Industry =
  RETAIL | HEALTHCARE | MANUFACTURING | LOGISTICS | AUTOMOTIVE | TECHNOLOGY | FINANCE

text \<open>The \<open>name\<close> attribute of an enum member.\<close>

fun industry_name :: "Industry \<Rightarrow> string" where
  "industry_name RETAIL = ''RETAIL''"
| "industry_name HEALTHCARE = ''HEALTHCARE''"
| "industry_name MANUFACTURING = ''MANUFACTURING''"
| "industry_name LOGISTICS = ''LOGISTICS''"
| "industry_name AUTOMOTIVE = ''AUTOMOTIVE''"
| "industry_name TECHNOLOGY = ''TECHNOLOGY''"
| "industry_name FINANCE = ''FINANCE''"

record EdiStandard =
  name :: string
  latest_version :: string
  region :: string
  governing_body :: string
  year_established :: int

record EdiDocument =
  code :: string
  name :: string
  description :: string
  common_versions :: "string list"
  industries :: "Industry list"
  direction :: string
  transaction_flow :: "string option"

type_synonym documents = "(string \<times> EdiDocument) list"

type_synonym dataset = "(string \<times> documents) list"

datatype error = TypeError | ValueError | KeyError

subsection \<open>The table of standards\<close>

definition ANSI_X12 :: EdiStandard where
  "ANSI_X12 = \<lparr>EdiStandard.name = ''ANSI X12 (North American Standard)'',
     latest_version = ''6030'', region = ''North America'',
     governing_body = ''ANSI'', year_established = 1979\<rparr>"

definition EDIFACT :: EdiStandard where
  "EDIFACT = \<lparr>EdiStandard.name = ''EDIFACT (International Standard)'',
     latest_version = ''D22B'', region = ''Global'',
     governing_body = ''UNECE'', year_established = 1987\<rparr>"

definition TRADACOMS :: EdiStandard where
  "TRADACOMS = \<lparr>EdiStandard.name = ''TRADACOMS (UK Retail Standard)'',
     latest_version = ''v3'', region = ''United Kingdom'',
     governing_body = ''GS1 UK'', year_established = 1982\<rparr>"

definition VDA :: EdiStandard where
  "VDA = \<lparr>EdiStandard.name = ''VDA (German Automotive Standard)'',
     latest_version = ''6.0'', region = ''Germany'',
     governing_body = ''VDA'', year_established = 1977\<rparr>"

definition ROSETTANET :: EdiStandard where
  "ROSETTANET = \<lparr>EdiStandard.name = ''RosettaNet (Technology Industry Standard)'',
     latest_version = ''02.00.00'', region = ''Global'',
     governing_body = ''GS1'', year_established = 1998\<rparr>"

definition STANDARDS :: "(string \<times> EdiStandard) list" where
  "STANDARDS = [(''ANSI_X12'', ANSI_X12), (''EDIFACT'', EDIFACT), (''TRADACOMS'', TRADACOMS),
     (''VDA'', VDA), (''ROSETTANET'', ROSETTANET)]"

subsection \<open>The table of documents\<close>

definition x12_docs :: documents where
  "x12_docs = [
     (''204'', \<lparr>code = ''204'', name = ''Motor Carrier Load Tender'',
        description = ''A transportation order for shipping goods between locations'',
        common_versions = [''4010'', ''4030'', ''5010'', ''6030''],
        industries = [LOGISTICS, MANUFACTURING],
        direction = ''Outbound'',
        transaction_flow = Some (''Shipper '' @ arrow @ '' Carrier'')\<rparr>),
     (''210'', \<lparr>code = ''210'', name = ''Motor Carrier Freight Details and Invoice'',
        description = ''Detailed freight invoice from carrier to shipper'',
        common_versions = [''4010'', ''5010'', ''6030''],
        industries = [LOGISTICS],
        direction = ''Inbound'',
        transaction_flow = Some (''Carrier '' @ arrow @ '' Shipper'')\<rparr>),
     (''810'', \<lparr>code = ''810'', name = ''Invoice'',
        description = ''Electronic invoice document for billing purposes'',
        common_versions = [''4010'', ''5010'', ''6030''],
        industries = [RETAIL, MANUFACTURING, HEALTHCARE],
        direction = ''Both'',
        transaction_flow = Some (''Supplier '' @ arrow @ '' Buyer or Service Provider '' @ arrow @ '' Client'')\<rparr>),
     (''820'', \<lparr>code = ''820'', name = ''Payment Order/Remittance Advice'',
        description = ''Electronic funds transfer payment information'',
        common_versions = [''4010'', ''5010'', ''6030''],
        industries = [FINANCE, RETAIL, MANUFACTURING],
        direction = ''Outbound'',
        transaction_flow = Some (''Payer '' @ arrow @ '' Payee'')\<rparr>),
     (''834'', \<lparr>code = ''834'', name = ''Benefit Enrollment and Maintenance'',
        description = ''Health insurance enrollment information exchange'',
        common_versions = [''4010'', ''5010'', ''6030''],
        industries = [HEALTHCARE],
        direction = ''Both'',
        transaction_flow = Some (''Employer '' @ arrow @ '' Insurance Carrier or Government Agency '' @ arrow @ '' Provider'')\<rparr>),
     (''850'', \<lparr>code = ''850'', name = ''Purchase Order'',
        description = ''Buyer's formal request to purchase goods/services'',
        common_versions = [''4010'', ''5010'', ''6030''],
        industries = [RETAIL, MANUFACTURING, TECHNOLOGY],
        direction = ''Outbound'',
        transaction_flow = Some (''Buyer '' @ arrow @ '' Supplier'')\<rparr>),
     (''855'', \<lparr>code = ''855'', name = ''Purchase Order Acknowledgment'',
        description = ''Supplier's response accepting or rejecting a PO'',
        common_versions = [''4010'', ''5010'', ''6030''],
        industries = [RETAIL, MANUFACTURING],
        direction = ''Inbound'',
        transaction_flow = Some (''Supplier '' @ arrow @ '' Buyer'')\<rparr>),
     (''856'', \<lparr>code = ''856'', name = ''Advance Shipping Notice'',
        description = ''Detailed shipment information prior to delivery'',
        common_versions = [''4010'', ''5010'', ''6030''],
        industries = [RETAIL, MANUFACTURING, LOGISTICS],
        direction = ''Outbound'',
        transaction_flow = Some (''Supplier '' @ arrow @ '' Buyer'')\<rparr>),
     (''940'', \<lparr>code = ''940'', name = ''Warehouse Shipping Order'',
        description = ''Instruction to warehouse to ship goods'',
        common_versions = [''4010'', ''5010'', ''6030''],
        industries = [LOGISTICS, RETAIL],
        direction = ''Outbound'',
        transaction_flow = Some (''Retailer '' @ arrow @ '' Warehouse'')\<rparr>),
     (''945'', \<lparr>code = ''945'', name = ''Warehouse Shipping Advice'',
        description = ''Confirmation of warehouse shipment'',
        common_versions = [''4010'', ''5010'', ''6030''],
        industries = [LOGISTICS, RETAIL],
        direction = ''Inbound'',
        transaction_flow = Some (''Warehouse '' @ arrow @ '' Retailer'')\<rparr>),
     (''997'', \<lparr>code = ''997'', name = ''Functional Acknowledgment'',
        description = ''Technical confirmation of received EDI transmission'',
        common_versions = [''4010'', ''5010'', ''6030''],
        industries = [RETAIL, MANUFACTURING, HEALTHCARE],
        direction = ''Both'',
        transaction_flow = Some (''Between trading partners'')\<rparr>)]"

definition edifact_docs :: documents where
  "edifact_docs = [
     (''DESADV'', \<lparr>code = ''DESADV'', name = ''Dispatch Advice'',
        description = ''Notification of goods dispatched (similar to X12 856)'',
        common_versions = [''D96A'', ''D00B'', ''D22B''],
        industries = [LOGISTICS, MANUFACTURING],
        direction = ''Outbound'',
        transaction_flow = Some (''Supplier '' @ arrow @ '' Buyer'')\<rparr>),
     (''IFCSUM'', \<lparr>code = ''IFCSUM'', name = ''International Forwarding and Consolidation Summary'',
        description = ''Shipping consolidation details for international logistics'',
        common_versions = [''D96A'', ''D00B'', ''D22B''],
        industries = [LOGISTICS],
        direction = ''Both'',
        transaction_flow = Some (''Between logistics providers'')\<rparr>),
     (''INVOIC'', \<lparr>code = ''INVOIC'', name = ''Invoice'',
        description = ''International invoice document for billing'',
        common_versions = [''D96A'', ''D00B'', ''D22B''],
        industries = [RETAIL, MANUFACTURING],
        direction = ''Outbound'',
        transaction_flow = Some (''Supplier '' @ arrow @ '' Buyer'')\<rparr>),
     (''ORDERS'', \<lparr>code = ''ORDERS'', name = ''Purchase Order'',
        description = ''International purchase order document'',
        common_versions = [''D96A'', ''D00B'', ''D22B''],
        industries = [RETAIL, MANUFACTURING],
        direction = ''Outbound'',
        transaction_flow = Some (''Buyer '' @ arrow @ '' Supplier'')\<rparr>),
     (''ORDRSP'', \<lparr>code = ''ORDRSP'', name = ''Order Response'',
        description = ''Response to a purchase order (acceptance/rejection)'',
        common_versions = [''D96A'', ''D00B'', ''D22B''],
        industries = [RETAIL, MANUFACTURING],
        direction = ''Inbound'',
        transaction_flow = Some (''Supplier '' @ arrow @ '' Buyer'')\<rparr>),
     (''PRICAT'', \<lparr>code = ''PRICAT'', name = ''Price/Sales Catalog'',
        description = ''Product catalog with pricing information'',
        common_versions = [''D96A'', ''D00B'', ''D22B''],
        industries = [RETAIL, MANUFACTURING],
        direction = ''Outbound'',
        transaction_flow = Some (''Supplier '' @ arrow @ '' Buyer'')\<rparr>),
     (''RECADV'', \<lparr>code = ''RECADV'', name = ''Receiving Advice'',
        description = ''Notification of goods received (similar to X12 861)'',
        common_versions = [''D96A'', ''D00B'', ''D22B''],
        industries = [RETAIL, MANUFACTURING],
        direction = ''Inbound'',
        transaction_flow = Some (''Buyer '' @ arrow @ '' Supplier'')\<rparr>)]"

definition tradacoms_docs :: documents where
  "tradacoms_docs = [
     (''DELHDR'', \<lparr>code = ''DELHDR'', name = ''Delivery Header'',
        description = ''Delivery instructions for UK retail orders'',
        common_versions = [''v1'', ''v2'', ''v3''],
        industries = [RETAIL],
        direction = ''Outbound'',
        transaction_flow = Some (''Supplier '' @ arrow @ '' Retailer'')\<rparr>),
     (''INVFIL'', \<lparr>code = ''INVFIL'', name = ''Invoice File'',
        description = ''UK retail-specific invoice format'',
        common_versions = [''v1'', ''v2'', ''v3''],
        industries = [RETAIL],
        direction = ''Outbound'',
        transaction_flow = Some (''Supplier '' @ arrow @ '' Retailer'')\<rparr>),
     (''ORDHDR'', \<lparr>code = ''ORDHDR'', name = ''Order Header'',
        description = ''UK retail purchase order document'',
        common_versions = [''v1'', ''v2'', ''v3''],
        industries = [RETAIL],
        direction = ''Outbound'',
        transaction_flow = Some (''Retailer '' @ arrow @ '' Supplier'')\<rparr>),
     (''ORDCHG'', \<lparr>code = ''ORDCHG'', name = ''Order Change'',
        description = ''Modification to an existing purchase order'',
        common_versions = [''v1'', ''v2'', ''v3''],
        industries = [RETAIL],
        direction = ''Both'',
        transaction_flow = Some (''Between retailer and supplier'')\<rparr>)]"

definition vda_docs :: documents where
  "vda_docs = [
     (''4905'', \<lparr>code = ''4905'', name = ''Delivery Schedule'',
        description = ''Just-in-time delivery schedule for automotive manufacturing'',
        common_versions = [''4.3'', ''5.0'', ''6.0''],
        industries = [AUTOMOTIVE],
        direction = ''Outbound'',
        transaction_flow = Some (''OEM '' @ arrow @ '' Supplier'')\<rparr>),
     (''4913'', \<lparr>code = ''4913'', name = ''Invoice'',
        description = ''Automotive industry-specific invoice format'',
        common_versions = [''4.3'', ''5.0'', ''6.0''],
        industries = [AUTOMOTIVE],
        direction = ''Outbound'',
        transaction_flow = Some (''Supplier '' @ arrow @ '' OEM'')\<rparr>),
     (''4981'', \<lparr>code = ''4981'', name = ''Shipping Notification'',
        description = ''Advanced shipping notice for automotive parts'',
        common_versions = [''4.3'', ''5.0'', ''6.0''],
        industries = [AUTOMOTIVE],
        direction = ''Outbound'',
        transaction_flow = Some (''Supplier '' @ arrow @ '' OEM'')\<rparr>)]"

definition rosettanet_docs :: documents where
  "rosettanet_docs = [
     (''3A4'', \<lparr>code = ''3A4'', name = ''Purchase Order'',
        description = ''High-tech industry purchase order'',
        common_versions = [''02.00.00''],
        industries = [TECHNOLOGY],
        direction = ''Outbound'',
        transaction_flow = Some (''Buyer '' @ arrow @ '' Supplier'')\<rparr>),
     (''3A8'', \<lparr>code = ''3A8'', name = ''Purchase Order Change'',
        description = ''Modification to a technology purchase order'',
        common_versions = [''02.00.00''],
        industries = [TECHNOLOGY],
        direction = ''Both'',
        transaction_flow = Some (''Between trading partners'')\<rparr>),
     (''3B2'', \<lparr>code = ''3B2'', name = ''Shipping Notification'',
        description = ''Advanced shipping notice for technology products'',
        common_versions = [''02.00.00''],
        industries = [TECHNOLOGY],
        direction = ''Outbound'',
        transaction_flow = Some (''Supplier '' @ arrow @ '' Buyer'')\<rparr>),
     (''4B2'', \<lparr>code = ''4B2'', name = ''Advance Shipment Notification'',
        description = ''Detailed shipment information for technology supply chain'',
        common_versions = [''02.00.00''],
        industries = [TECHNOLOGY],
        direction = ''Outbound'',
        transaction_flow = Some (''Supplier '' @ arrow @ '' Buyer'')\<rparr>)]"

text \<open>
  \<open>get_edi_documents()\<close>: the documents of each standard, under the standard's display
  name.
\<close>

definition get_edi_documents :: dataset where
  "get_edi_documents =
     [(EdiStandard.name ANSI_X12, x12_docs),
      (EdiStandard.name EDIFACT, edifact_docs),
      (EdiStandard.name TRADACOMS, tradacoms_docs),
      (EdiStandard.name VDA, vda_docs),
      (EdiStandard.name ROSETTANET, rosettanet_docs)]"

subsection \<open>The sort of the document codes\<close>

text \<open>
  \<open>sorted(docs.keys(), key=lambda x: (int(x) if x.isdigit() else x))\<close>.
  The key of a code is an \<open>int\<close> or a \<open>str\<close>. \<open>int(x)\<close> is called on digit strings
  only; CPython (3.11) refuses more than 4300 digits with a ValueError. Python compares
  two ints by value, two strs lexically, and raises TypeError on an int and a str.
\<close>

datatype key = IntKey int | StrKey string

definition code_key :: "string \<Rightarrow> error + key" where
  "code_key x =
     (if isdigit x then (if length x > 4300 then Inl ValueError else Inr (IntKey (decimal x)))
      else Inr (StrKey x))"

fun key_lt :: "key \<Rightarrow> key \<Rightarrow> error + bool" where
  "key_lt (IntKey a) (IntKey b) = Inr (a < b)"
| "key_lt (StrKey a) (StrKey b) = Inr (a < b)"
| "key_lt (IntKey a) (StrKey b) = Inl TypeError"
| "key_lt (StrKey a) (IntKey b) = Inl TypeError"

text \<open>The keys are computed first, for every element in order.\<close>

fun with_keys :: "string list \<Rightarrow> error + (key \<times> string) list" where
  "with_keys [] = Inr []"
| "with_keys (x # xs) =
     (case code_key x of Inl e \<Rightarrow> Inl e
      | Inr k \<Rightarrow> (case with_keys xs of Inl e \<Rightarrow> Inl e | Inr ks \<Rightarrow> Inr ((k, x) # ks)))"

text \<open>
  Python's list sort is stable, uses only \<open><\<close> on the keys, and an exception of a
  comparison ends it. It is modelled as a stable insertion sort: an element goes in front
  of the first element that is not smaller than it. On keys of one kind both return the
  one stable sorted permutation; on keys of both kinds every comparison sort has to
  compare an int with a str at some point, and both end with TypeError.
\<close>

fun insert_by_key :: "key \<times> string \<Rightarrow> (key \<times> string) list \<Rightarrow> error + (key \<times> string) list" where
  "insert_by_key x [] = Inr [x]"
| "insert_by_key x (y # ys) =
     (case key_lt (fst y) (fst x) of Inl e \<Rightarrow> Inl e
      | Inr True \<Rightarrow> (case insert_by_key x ys of Inl e \<Rightarrow> Inl e | Inr r \<Rightarrow> Inr (y # r))
      | Inr False \<Rightarrow> Inr (x # y # ys))"

fun sort_pairs :: "(key \<times> string) list \<Rightarrow> error + (key \<times> string) list" where
  "sort_pairs [] = Inr []"
| "sort_pairs (x # xs) =
     (case sort_pairs xs of Inl e \<Rightarrow> Inl e | Inr r \<Rightarrow> insert_by_key x r)"

definition sorted_codes :: "string list \<Rightarrow> error + string list" where
  "sorted_codes codes =
     (case with_keys codes of Inl e \<Rightarrow> Inl e
      | Inr ks \<Rightarrow> (case sort_pairs ks of Inl e \<Rightarrow> Inl e | Inr r \<Rightarrow> Inr (map snd r)))"

subsection \<open>Printing a document\<close>

definition quote :: string where
  "quote = [CHR 0x27]"

text \<open>
  The \<open>print\<close> calls that \<open>list_edi_documents\<close> and \<open>search_edi_code\<close> both make for a
  document, from the bullet line to the description: six of them, or five, since the
  flow line is printed only for a flow that is neither \<open>None\<close> nor empty.
\<close>

definition doc_entry :: "(string \<Rightarrow> string) \<Rightarrow> string \<Rightarrow> EdiDocument \<Rightarrow> string list" where
  "doc_entry fill c d =
     [bullet @ '' '' @ c @ '': '' @ name d,
      ''  Direction: '' @ direction d]
     @ (case transaction_flow d of None \<Rightarrow> []
        | Some flow \<Rightarrow> if flow \<noteq> [] then [''  Flow: '' @ flow] else [])
     @ [''  Versions: '' @ join '', '' (common_versions d),
        ''  Industries: '' @ join '', '' (map industry_name (industries d)),
        ''  Description: '' @ fill (description d) @ nl]"

definition standard_header :: "string \<Rightarrow> string" where
  "standard_header standard = ''== '' @ standard @ '' ==''"

subsection \<open>\<open>list_standards\<close>\<close>

text \<open>\<open>str(n)\<close> of an integer.\<close>

fun str_nat :: "nat \<Rightarrow> string" where
  "str_nat n =
     (if n < 10 then [''0123456789'' ! n] else str_nat (n div 10) @ [''0123456789'' ! (n mod 10)])"

declare str_nat.simps [simp del]

definition str_int :: "int \<Rightarrow> string" where
  "str_int i = (if i < 0 then ''-'' @ str_nat (nat (- i)) else str_nat (nat i))"

fun standards_loop :: "bool \<Rightarrow> EdiStandard list \<Rightarrow> string list" where
  "standards_loop detailed [] = []"
| "standards_loop detailed (std # rest) =
     [bullet @ '' '' @ EdiStandard.name std]
     @ (if detailed then
          [''  - Latest Version: '' @ latest_version std,
           ''  - Region: '' @ region std,
           ''  - Governing Body: '' @ governing_body std,
           ''  - Established: '' @ str_int (year_established std) @ nl]
        else [])
     @ standards_loop detailed rest"

definition list_standards :: "bool \<Rightarrow> string list" where
  "list_standards detailed =
     (nl @ ''Supported EDI Standards:'' @ nl) # standards_loop detailed (map snd STANDARDS)"

subsection \<open>\<open>list_edi_documents\<close>\<close>

text \<open>The industry filter: a document is skipped when a filter is given and no industry
  of the document has a name that contains it, both in lower case.\<close>

fun skipped :: "string option \<Rightarrow> EdiDocument \<Rightarrow> bool" where
  "skipped None d = False"
| "skipped (Some f) d =
     (f \<noteq> [] \<and> \<not> list_ex (\<lambda>ind. str_in (lower f) (lower (industry_name ind))) (industries d))"

text \<open>The loop over the sorted codes of one standard; \<open>docs[code]\<close> raises KeyError for
  a code that is not a key.\<close>

fun list_codes ::
  "(string \<Rightarrow> string) \<Rightarrow> string option \<Rightarrow> documents \<Rightarrow> string list \<Rightarrow> error + string list" where
  "list_codes fill filter_industry docs [] = Inr []"
| "list_codes fill filter_industry docs (c # cs) =
     (case map_of docs c of None \<Rightarrow> Inl KeyError
      | Some d \<Rightarrow>
          (case list_codes fill filter_industry docs cs of Inl e \<Rightarrow> Inl e
           | Inr rest \<Rightarrow>
               if skipped filter_industry d then Inr rest
               else Inr (doc_entry fill c d @ rest)))"

definition divider :: "string \<Rightarrow> string" where
  "divider standard = replicate (length standard + 4) CHR ''-'' @ nl"

text \<open>The loop over the standards: header, divider, then the documents in sorted order.\<close>

fun list_sections ::
  "(string \<Rightarrow> string) \<Rightarrow> string option \<Rightarrow> dataset \<Rightarrow> error + string list" where
  "list_sections fill filter_industry [] = Inr []"
| "list_sections fill filter_industry ((standard, docs) # rest) =
     (case sorted_codes (map fst docs) of Inl e \<Rightarrow> Inl e
      | Inr codes \<Rightarrow>
          (case list_codes fill filter_industry docs codes of Inl e \<Rightarrow> Inl e
           | Inr entries \<Rightarrow>
               (case list_sections fill filter_industry rest of Inl e \<Rightarrow> Inl e
                | Inr later \<Rightarrow>
                    Inr ([standard_header standard, divider standard] @ entries @ later))))"

definition list_title :: string where
  "list_title = nl @ ''EDI Document Reference:'' @ nl"

text \<open>What \<open>list_edi_documents\<close> does once the standards are selected: the title, then
  the loop.\<close>

definition list_body ::
  "(string \<Rightarrow> string) \<Rightarrow> string option \<Rightarrow> dataset \<Rightarrow> error + string list" where
  "list_body fill filter_industry edi_docs =
     (case list_sections fill filter_industry edi_docs of Inl e \<Rightarrow> Inl e
      | Inr out \<Rightarrow> Inr (list_title # out))"

definition no_standards_message :: "string \<Rightarrow> string" where
  "no_standards_message f = nl @ ''No standards found matching '' @ quote @ f @ quote"

fun list_edi_documents ::
  "(string \<Rightarrow> string) \<Rightarrow> string option \<Rightarrow> string option \<Rightarrow> error + string list" where
  "list_edi_documents fill None filter_industry =
     list_body fill filter_industry get_edi_documents"
| "list_edi_documents fill (Some f) filter_industry =
     (if f = [] then list_body fill filter_industry get_edi_documents
      else
        (let edi_docs = filter (\<lambda>(k, v). str_in (lower f) (lower k)) get_edi_documents
         in if edi_docs = [] then Inr [no_standards_message f]
            else list_body fill filter_industry edi_docs))"

subsection \<open>\<open>search_edi_code\<close>\<close>

text \<open>The state of the search: what has been printed, and the flag \<open>found\<close>.\<close>

type_synonym search_state = "string list \<times> bool"

fun search_docs ::
  "(string \<Rightarrow> string) \<Rightarrow> string \<Rightarrow> bool \<Rightarrow> string \<Rightarrow> documents \<Rightarrow> search_state \<Rightarrow> search_state" where
  "search_docs fill c show_all standard [] st = st"
| "search_docs fill c show_all standard ((doc_code, d) # rest) (out, found) =
     search_docs fill c show_all standard rest
       (if str_in c doc_code \<or> show_all
        then (out @ standard_header standard # doc_entry fill doc_code d, True)
        else (out, found))"

fun search_standards ::
  "(string \<Rightarrow> string) \<Rightarrow> string \<Rightarrow> bool \<Rightarrow> dataset \<Rightarrow> search_state \<Rightarrow> search_state" where
  "search_standards fill c show_all [] st = st"
| "search_standards fill c show_all ((standard, docs) # rest) st =
     search_standards fill c show_all rest (search_docs fill c show_all standard docs st)"

definition search_title :: "string \<Rightarrow> string" where
  "search_title c = nl @ ''Search Results for '' @ quote @ c @ quote @ '':'' @ nl"

definition no_documents_message :: "string \<Rightarrow> string" where
  "no_documents_message c = ''No EDI documents found matching '' @ quote @ c @ quote"

definition search_edi_code :: "(string \<Rightarrow> string) \<Rightarrow> string \<Rightarrow> bool \<Rightarrow> string list" where
  "search_edi_code fill code0 show_all =
     (let c = upper code0;
          (out, found) = search_standards fill c show_all get_edi_documents ([search_title c], False)
      in if \<not> found then out @ [no_documents_message c] else out)"

subsection \<open>\<open>main\<close>\<close>

text \<open>The parsed command line (\<open>argparse\<close> has accepted it): \<open>-s\<close>, \<open>-i\<close>, \<open>-c\<close> with
  their texts, and the switches \<open>-a\<close>, \<open>-l\<close>, \<open>-d\<close>.\<close>

record args =
  arg_standard :: "string option"
  arg_industry :: "string option"
  arg_code :: "string option"
  arg_all :: bool
  arg_list_standards :: bool
  arg_detailed :: bool

definition main :: "(string \<Rightarrow> string) \<Rightarrow> args \<Rightarrow> error + string list" where
  "main fill a =
     (if arg_list_standards a then Inr (list_standards (arg_detailed a))
      else (case arg_code a of
              Some c \<Rightarrow>
                if c \<noteq> [] then Inr (search_edi_code fill c (arg_all a))
                else list_edi_documents fill (arg_standard a) (arg_industry a)
            | None \<Rightarrow> list_edi_documents fill (arg_standard a) (arg_industry a)))"

section \<open>Notions of the statements\<close>

text \<open>
  The definitions of this section are not code of the program: they word what the
  properties below say about it, and the texts they expect are spelled out here, not
  taken from the printing functions.
\<close>

subsection \<open>The order of the listing\<close>

text \<open>The kind of a key, and the order of two keys of one kind.\<close>

fun is_int_key :: "key \<Rightarrow> bool" where
  "is_int_key (IntKey n) = True"
| "is_int_key (StrKey s) = False"

fun key_le :: "key \<Rightarrow> key \<Rightarrow> bool" where
  "key_le (IntKey a) (IntKey b) = (a \<le> b)"
| "key_le (StrKey a) (StrKey b) = (a \<le> b)"
| "key_le (IntKey a) (StrKey b) = False"
| "key_le (StrKey a) (IntKey b) = False"

abbreviation pair_le :: "key \<times> string \<Rightarrow> key \<times> string \<Rightarrow> bool" where
  "pair_le p q \<equiv> key_le (fst p) (fst q)"

text \<open>
  The number that a string of digits writes: each digit counts for its power of ten.
\<close>

fun numeric_value :: "string \<Rightarrow> int" where
  "numeric_value [] = 0"
| "numeric_value (c # cs) = (int (of_char c) - 48) * 10 ^ length cs + numeric_value cs"

text \<open>
  The order of the listing on codes: two digit strings by the number they write, two
  other codes lexically. A digit string and another code are not ordered.
\<close>

definition code_le :: "string \<Rightarrow> string \<Rightarrow> bool" where
  "code_le a b =
     (if isdigit a \<and> isdigit b then numeric_value a \<le> numeric_value b
      else if \<not> isdigit a \<and> \<not> isdigit b then a \<le> b
      else False)"

subsection \<open>Expected outputs\<close>

text \<open>
  The entry of a document under the code \<open>c\<close>: the bullet line with the code and the
  name, the direction, the flow when there is one, the versions and the industry names
  joined by commas, and the wrapped description followed by an empty line.
\<close>

fun flow_lines :: "string option \<Rightarrow> string list" where
  "flow_lines None = []"
| "flow_lines (Some flow) = (if flow = [] then [] else [''  Flow: '' @ flow])"

definition entry_lines :: "(string \<Rightarrow> string) \<Rightarrow> string \<Rightarrow> EdiDocument \<Rightarrow> string list" where
  "entry_lines fill c d =
     (bullet @ '' '' @ c @ '': '' @ name d)
     # (''  Direction: '' @ direction d)
     # flow_lines (transaction_flow d)
     @ [''  Versions: '' @ join '', '' (common_versions d),
        ''  Industries: '' @ join '', '' (map industry_name (industries d)),
        ''  Description: '' @ fill (description d) @ nl]"

text \<open>
  The whole table as a search prints it: for every standard in table order and every
  document of it in table order, once, the line \<open>== standard ==\<close> and the entry of the
  document.
\<close>

definition every_document :: "(string \<Rightarrow> string) \<Rightarrow> string list" where
  "every_document fill =
     concat (map (\<lambda>(standard, docs).
       concat (map (\<lambda>(k, d). (''== '' @ standard @ '' =='') # entry_lines fill k d) docs))
       get_edi_documents)"

text \<open>
  The keys of each standard in the order in which \<open>list_edi_documents\<close> prints them,
  standard by standard in table order.
\<close>

definition document_order :: "string list list" where
  "document_order =
     [[''204'', ''210'', ''810'', ''820'', ''834'', ''850'', ''855'', ''856'', ''940'', ''945'', ''997''],
      [''DESADV'', ''IFCSUM'', ''INVOIC'', ''ORDERS'', ''ORDRSP'', ''PRICAT'', ''RECADV''],
      [''DELHDR'', ''INVFIL'', ''ORDCHG'', ''ORDHDR''],
      [''4905'', ''4913'', ''4981''],
      [''3A4'', ''3A8'', ''3B2'', ''4B2'']]"

text \<open>The documents of a standard, taken in the order of a list of codes.\<close>

definition in_order :: "documents \<Rightarrow> string list \<Rightarrow> documents" where
  "in_order docs codes =
     concat (map (\<lambda>c. case map_of docs c of None \<Rightarrow> [] | Some d \<Rightarrow> [(c, d)]) codes)"

text \<open>
  Some industry of the document has a name that contains the filter text, letter case
  aside.
\<close>

definition has_industry :: "string \<Rightarrow> EdiDocument \<Rightarrow> bool" where
  "has_industry f d =
     list_ex (\<lambda>ind. str_in (lower f) (lower (industry_name ind))) (industries d)"

text \<open>
  The section of a standard in a listing: the line \<open>== standard ==\<close>, a line of dashes
  four longer than the name followed by an empty line, and the entries of its documents
  that are kept, in the order of the codes. A section that keeps no document is those
  two lines.
\<close>

definition section_of ::
  "(string \<Rightarrow> string) \<Rightarrow> (EdiDocument \<Rightarrow> bool) \<Rightarrow> string \<times> documents \<Rightarrow> string list
    \<Rightarrow> string list" where
  "section_of fill keep sd codes =
     (''== '' @ fst sd @ '' =='')
     # (replicate (length (fst sd) + 4) CHR ''-'' @ nl)
     # concat (map (\<lambda>(c, d). entry_lines fill c d)
         (filter (\<lambda>(c, d). keep d) (in_order (snd sd) codes)))"

text \<open>
  The standard filter selects a display name when it is absent or empty, or when the
  name contains it, letter case aside. The standards that a listing shows are the
  selected ones, in table order, each with the order of its keys.
\<close>

definition selects :: "string option \<Rightarrow> string \<Rightarrow> bool" where
  "selects fs standard =
     (case fs of None \<Rightarrow> True | Some s \<Rightarrow> s = [] \<or> str_in (lower s) (lower standard))"

definition listed :: "string option \<Rightarrow> ((string \<times> documents) \<times> string list) list" where
  "listed fs =
     filter (\<lambda>(sd, codes). selects fs (fst sd)) (zip get_edi_documents document_order)"

text \<open>An optional text of the command line is ASCII when it is given.\<close>

definition ascii_opt :: "string option \<Rightarrow> bool" where
  "ascii_opt s = (case s of None \<Rightarrow> True | Some t \<Rightarrow> ascii t)"

subsection \<open>A notion of the proofs\<close>

text \<open>
  What the search has printed for the documents whose key satisfies \<open>p\<close>,
  in terms of the printing functions.
\<close>

definition hits :: "(string \<Rightarrow> string) \<Rightarrow> (string \<Rightarrow> bool) \<Rightarrow> dataset \<Rightarrow> string list" where
  "hits fill p ds =
     concat (map (\<lambda>(standard, docs).
       concat (map (\<lambda>(k, d). standard_header standard # doc_entry fill k d)
         (filter (\<lambda>(k, d). p k) docs))) ds)"

section \<open>Properties\<close>

subsection \<open>Text\<close>

text \<open>\<open>str_in\<close> is the substring relation.\<close>

lemma starts_with_iff: "starts_with a b \<longleftrightarrow> (\<exists>s. b = a @ s)"
  by (induction a b rule: starts_with.induct) auto

lemma str_in_iff: "str_in a b \<longleftrightarrow> (\<exists>p s. b = p @ a @ s)"
proof (induction b)
  case Nil
  then show ?case by auto
next
  case (Cons c cs)
  have "(\<exists>p s. c # cs = p @ a @ s) \<longleftrightarrow> (\<exists>s. c # cs = a @ s) \<or> (\<exists>p s. cs = p @ a @ s)"
    by (auto simp: Cons_eq_append_conv)
  then show ?case
    using Cons by (simp add: starts_with_iff)
qed

text \<open>\<open>decimal\<close>, the loop of \<open>int\<close> over the digits, computes the number that they write.\<close>

lemma foldl_decimal:
  "foldl (\<lambda>n c. 10 * n + (int (of_char c) - 48)) a s = a * 10 ^ length s + numeric_value s"
  by (induction s arbitrary: a) (simp_all add: algebra_simps)

lemma decimal_numeric_value: "decimal s = numeric_value s"
  by (simp add: decimal_def foldl_decimal)

text \<open>The printing function prints the expected entry.\<close>

lemma doc_entry_lines: "doc_entry fill c d = entry_lines fill c d"
  by (cases "transaction_flow d") (simp_all add: doc_entry_def entry_lines_def)

subsection \<open>The table\<close>

text \<open>
  The association lists of the table are dicts: no key occurs twice, so that nothing of
  the source's literals is overwritten and \<open>map_of\<close> is the lookup.
\<close>

lemma table_keys_distinct:
  "distinct (map fst STANDARDS) \<and> distinct (map fst get_edi_documents)
   \<and> list_all (\<lambda>(standard, docs). distinct (map fst docs)) get_edi_documents"
  by code_simp

subsection \<open>The sort\<close>

lemma key_lt_same_kind:
  "is_int_key a = is_int_key b \<Longrightarrow> key_lt a b = Inr (\<not> key_le b a)"
  by (cases a; cases b) auto

lemma key_lt_mixed:
  "is_int_key a \<noteq> is_int_key b \<Longrightarrow> key_lt a b = Inl TypeError"
  by (cases a; cases b) auto

lemma key_le_trans:
  "key_le a b \<Longrightarrow> key_le b c \<Longrightarrow> key_le a c"
  by (cases a; cases b; cases c) auto

lemma key_le_total:
  "is_int_key a = is_int_key b \<Longrightarrow> key_le a b \<or> key_le b a"
  by (cases a; cases b) auto

lemma insert_by_key_same_kind:
  assumes "\<forall>y\<in>set ys. is_int_key (fst y) = is_int_key (fst x)"
  shows "\<exists>r. insert_by_key x ys = Inr r \<and> mset r = add_mset x (mset ys)
           \<and> (sorted_wrt pair_le ys \<longrightarrow> sorted_wrt pair_le r)"
  using assms
proof (induction ys)
  case Nil
  then show ?case by simp
next
  case (Cons y ys)
  have kind: "is_int_key (fst y) = is_int_key (fst x)"
    using Cons.prems by simp
  from Cons obtain r where r: "insert_by_key x ys = Inr r" "mset r = add_mset x (mset ys)"
    "sorted_wrt pair_le ys \<longrightarrow> sorted_wrt pair_le r"
    by auto
  show ?case
  proof (cases "key_le (fst x) (fst y)")
    case True
    then have "insert_by_key x (y # ys) = Inr (x # y # ys)"
      using kind by (simp add: key_lt_same_kind)
    moreover have "sorted_wrt pair_le (y # ys) \<longrightarrow> sorted_wrt pair_le (x # y # ys)"
      using True by (auto intro: key_le_trans)
    ultimately show ?thesis by simp
  next
    case False
    then have ins: "insert_by_key x (y # ys) = Inr (y # r)"
      using kind r(1) by (simp add: key_lt_same_kind)
    have yx: "key_le (fst y) (fst x)"
      using False key_le_total [OF kind] by blast
    have "set r = insert x (set ys)"
      using r(2) by (metis set_mset_add_mset_insert set_mset_mset)
    then have "sorted_wrt pair_le (y # ys) \<longrightarrow> sorted_wrt pair_le (y # r)"
      using r(3) yx by auto
    then show ?thesis using ins r(2) by simp
  qed
qed

lemma sort_pairs_same_kind:
  assumes "\<forall>p\<in>set ps. is_int_key (fst p) = b"
  shows "\<exists>r. sort_pairs ps = Inr r \<and> mset r = mset ps \<and> sorted_wrt pair_le r"
  using assms
proof (induction ps)
  case Nil
  then show ?case by simp
next
  case (Cons x xs)
  then obtain r where r: "sort_pairs xs = Inr r" "mset r = mset xs" "sorted_wrt pair_le r"
    by auto
  have "set r = set xs"
    using r(2) by (metis set_mset_mset)
  then have "\<forall>y\<in>set r. is_int_key (fst y) = is_int_key (fst x)"
    using Cons.prems by simp
  from insert_by_key_same_kind [OF this] r show ?case
    by auto
qed

lemma sort_pairs_mixed:
  assumes "\<exists>p\<in>set ps. is_int_key (fst p)" and "\<exists>p\<in>set ps. \<not> is_int_key (fst p)"
  shows "sort_pairs ps = Inl TypeError"
  using assms
proof (induction ps)
  case Nil
  then show ?case by simp
next
  case (Cons x xs)
  show ?case
  proof (cases "(\<exists>p\<in>set xs. is_int_key (fst p)) \<and> (\<exists>p\<in>set xs. \<not> is_int_key (fst p))")
    case True
    then show ?thesis using Cons.IH by simp
  next
    case False
    then have same: "\<forall>p\<in>set xs. is_int_key (fst p) = (\<not> is_int_key (fst x))"
      using Cons.prems by auto
    have ne: "xs \<noteq> []"
      using Cons.prems by (cases "is_int_key (fst x)") auto
    from sort_pairs_same_kind [OF same] obtain r where
      r: "sort_pairs xs = Inr r" "mset r = mset xs"
      by blast
    have "set r = set xs"
      using r(2) by (metis set_mset_mset)
    with ne obtain y ys where ys: "r = y # ys" "y \<in> set xs"
      by (cases r) auto
    then have "is_int_key (fst y) \<noteq> is_int_key (fst x)"
      using same by simp
    then show ?thesis
      using r(1) ys(1) by (simp add: key_lt_mixed)
  qed
qed


lemma with_keys_ok:
  assumes "\<forall>c\<in>set codes. isdigit c \<longrightarrow> length c \<le> 4300"
  shows "\<exists>ks. with_keys codes = Inr ks \<and> map snd ks = codes
           \<and> (\<forall>p\<in>set ks. code_key (snd p) = Inr (fst p))"
  using assms
proof (induction codes)
  case Nil
  then show ?case by simp
next
  case (Cons c cs)
  then obtain ks where ks: "with_keys cs = Inr ks" "map snd ks = cs"
    "\<forall>p\<in>set ks. code_key (snd p) = Inr (fst p)"
    by auto
  have "\<exists>k. code_key c = Inr k"
    using Cons.prems by (auto simp: code_key_def)
  then show ?case using ks by auto
qed

lemma code_key_kind:
  "code_key c = Inr k \<Longrightarrow> is_int_key k = isdigit c"
  by (auto simp: code_key_def split: if_splits)

lemma code_key_le:
  "code_key a = Inr ka \<Longrightarrow> code_key b = Inr kb \<Longrightarrow> key_le ka kb \<Longrightarrow> code_le a b"
  by (auto simp: code_key_def code_le_def decimal_numeric_value split: if_splits)

lemma sorted_codes_of_pairs:
  assumes "sort_pairs ks = Inr r" and "mset r = mset ks" and "sorted_wrt pair_le r"
    and "\<forall>p\<in>set ks. code_key (snd p) = Inr (fst p)"
  shows "mset (map snd r) = mset (map snd ks) \<and> sorted_wrt code_le (map snd r)"
proof -
  have "set r = set ks"
    using assms(2) by (metis set_mset_mset)
  then have keys: "\<forall>p\<in>set r. code_key (snd p) = Inr (fst p)"
    using assms(4) by simp
  have "sorted_wrt (\<lambda>p q. code_le (snd p) (snd q)) r"
    using assms(3) keys by (auto intro: sorted_wrt_mono_rel [rotated] code_key_le)
  then have "sorted_wrt code_le (map snd r)"
    by (simp add: sorted_wrt_map)
  moreover have "mset (map snd r) = mset (map snd ks)"
    using assms(2) by (metis mset_map)
  ultimately show ?thesis by simp
qed

lemma with_keys_Inr:
  "with_keys codes = Inr ks \<Longrightarrow>
     map snd ks = codes \<and> (\<forall>p\<in>set ks. code_key (snd p) = Inr (fst p))"
  by (induction codes arbitrary: ks) (auto split: sum.splits)

lemma sorted_codes_ok:
  assumes kind: "(\<forall>c\<in>set codes. isdigit c \<and> length c \<le> 4300) \<or> (\<forall>c\<in>set codes. \<not> isdigit c)"
  shows "\<exists>r. sorted_codes codes = Inr r \<and> mset r = mset codes \<and> sorted_wrt code_le r"
proof -
  have "\<forall>c\<in>set codes. isdigit c \<longrightarrow> length c \<le> 4300"
    using kind by auto
  from with_keys_ok [OF this] obtain ks where ks: "with_keys codes = Inr ks"
    "map snd ks = codes" "\<forall>p\<in>set ks. code_key (snd p) = Inr (fst p)"
    by blast
  have "\<forall>p\<in>set ks. snd p \<in> set codes"
    using ks(2) by force
  then have "\<forall>p\<in>set ks. is_int_key (fst p) = (\<forall>c\<in>set codes. isdigit c)"
    using kind ks(3) by (auto dest!: code_key_kind)
  from sort_pairs_same_kind [OF this] obtain r where r: "sort_pairs ks = Inr r"
    "mset r = mset ks" "sorted_wrt pair_le r"
    by blast
  from sorted_codes_of_pairs [OF r ks(3)] ks(1,2) r(1)
  show ?thesis
    by (simp add: sorted_codes_def)
qed

lemma sorted_codes_mixed:
  assumes "\<exists>c\<in>set codes. isdigit c" and "\<exists>c\<in>set codes. \<not> isdigit c"
    and "\<forall>c\<in>set codes. isdigit c \<longrightarrow> length c \<le> 4300"
  shows "sorted_codes codes = Inl TypeError"
proof -
  from with_keys_ok [OF assms(3)] obtain ks where ks: "with_keys codes = Inr ks"
    "map snd ks = codes" "\<forall>p\<in>set ks. code_key (snd p) = Inr (fst p)"
    by blast
  have codes: "set codes = snd ` set ks"
    using ks(2) by (metis set_map)
  have "\<exists>p\<in>set ks. is_int_key (fst p)"
    using assms(1) ks(3) unfolding codes by (auto dest!: code_key_kind)
  moreover have "\<exists>p\<in>set ks. \<not> is_int_key (fst p)"
    using assms(2) ks(3) unfolding codes by (auto dest!: code_key_kind)
  ultimately have "sort_pairs ks = Inl TypeError"
    by (rule sort_pairs_mixed)
  then show ?thesis
    using ks(1) by (simp add: sorted_codes_def)
qed

text \<open>A sort that returns has returned a permutation in the order of the listing.\<close>

lemma sorted_codes_Inr:
  assumes "sorted_codes codes = Inr r"
  shows "mset r = mset codes \<and> sorted_wrt code_le r"
proof -
  from assms obtain ks ps where ks: "with_keys codes = Inr ks"
    and ps: "sort_pairs ks = Inr ps" and r: "r = map snd ps"
    by (auto simp: sorted_codes_def split: sum.splits)
  have keys: "map snd ks = codes" "\<forall>p\<in>set ks. code_key (snd p) = Inr (fst p)"
    using with_keys_Inr [OF ks] by auto
  have "\<not> ((\<exists>p\<in>set ks. is_int_key (fst p)) \<and> (\<exists>p\<in>set ks. \<not> is_int_key (fst p)))"
    using sort_pairs_mixed [of ks] ps by auto
  then have "\<forall>p\<in>set ks. is_int_key (fst p) = (\<exists>q\<in>set ks. is_int_key (fst q))"
    by blast
  from sort_pairs_same_kind [OF this] ps have "mset ps = mset ks" "sorted_wrt pair_le ps"
    by auto
  from sorted_codes_of_pairs [OF ps this keys(2)] show ?thesis
    using r keys(1) by simp
qed

text \<open>\<open>int\<close> refuses a digit string of more than 4300 digits, before any comparison.\<close>

lemma with_keys_too_long:
  assumes "\<exists>c\<in>set codes. isdigit c \<and> 4300 < length c"
  shows "with_keys codes = Inl ValueError"
  using assms
proof (induction codes)
  case Nil
  then show ?case by simp
next
  case (Cons x xs)
  show ?case
  proof (cases "isdigit x \<and> 4300 < length x")
    case True
    then show ?thesis by (simp add: code_key_def)
  next
    case False
    then have "with_keys xs = Inl ValueError"
      using Cons by auto
    then show ?thesis
      by (auto simp: code_key_def split: sum.splits if_splits)
  qed
qed

lemma sorted_codes_too_long:
  "\<exists>c\<in>set codes. isdigit c \<and> 4300 < length c \<Longrightarrow> sorted_codes codes = Inl ValueError"
  by (simp add: sorted_codes_def with_keys_too_long)

text \<open>
  Claim C1, as amended. On ASCII codes the sort of the listing does one of three
  things. When some digit string has more than 4300 digits, \<open>int\<close> refuses it and the
  sort raises ValueError. Otherwise, when every code is a digit string or none is, the
  sort returns the codes, permuted into non-decreasing order: digit strings by the number
  they write, other codes lexically. Otherwise some code is a digit string and some code
  is not, and the comparison of an int key with a str key raises TypeError: the sort is
  not well defined on a mix.
\<close>

theorem sorted_codes_one_kind:
  "(\<forall>c\<in>set codes. ascii c) \<longrightarrow>
   ((\<exists>c\<in>set codes. isdigit c \<and> 4300 < length c) \<longrightarrow> sorted_codes codes = Inl ValueError)
   \<and> ((\<forall>c\<in>set codes. isdigit c \<longrightarrow> length c \<le> 4300) \<longrightarrow>
        (((\<forall>c\<in>set codes. isdigit c) \<or> (\<forall>c\<in>set codes. \<not> isdigit c)) \<longrightarrow>
           (\<exists>r. sorted_codes codes = Inr r \<and> mset r = mset codes \<and> sorted_wrt code_le r))
        \<and> ((\<exists>c\<in>set codes. isdigit c) \<and> (\<exists>c\<in>set codes. \<not> isdigit c) \<longrightarrow>
           sorted_codes codes = Inl TypeError))"
proof (intro impI conjI)
  assume "\<exists>c\<in>set codes. isdigit c \<and> 4300 < length c"
  then show "sorted_codes codes = Inl ValueError"
    by (rule sorted_codes_too_long)
next
  assume short: "\<forall>c\<in>set codes. isdigit c \<longrightarrow> length c \<le> 4300"
    and "(\<forall>c\<in>set codes. isdigit c) \<or> (\<forall>c\<in>set codes. \<not> isdigit c)"
  then have "(\<forall>c\<in>set codes. isdigit c \<and> length c \<le> 4300) \<or> (\<forall>c\<in>set codes. \<not> isdigit c)"
    by blast
  then show "\<exists>r. sorted_codes codes = Inr r \<and> mset r = mset codes \<and> sorted_wrt code_le r"
    by (rule sorted_codes_ok)
next
  assume "\<forall>c\<in>set codes. isdigit c \<longrightarrow> length c \<le> 4300"
    and "(\<exists>c\<in>set codes. isdigit c) \<and> (\<exists>c\<in>set codes. \<not> isdigit c)"
  then show "sorted_codes codes = Inl TypeError"
    using sorted_codes_mixed [of codes] by blast
qed

text \<open>
  The theorem at five lists, with what the sort returns there: digit strings go by
  value (\<open>7\<close>, \<open>99\<close>, \<open>100\<close>, which lexically would be \<open>100\<close>, \<open>7\<close>, \<open>99\<close>), other
  codes lexically, a mix raises TypeError, and a digit string of 4301 digits raises
  ValueError, also in a mix.
\<close>

theorem sorted_codes_one_kind_witness:
  "sorted_codes [''810'', ''204'', ''997''] = Inr [''204'', ''810'', ''997'']
   \<and> sorted_wrt code_le [''204'', ''810'', ''997'']
   \<and> sorted_codes [''100'', ''99'', ''7''] = Inr [''7'', ''99'', ''100'']
   \<and> sorted_wrt code_le [''7'', ''99'', ''100'']
   \<and> sorted_codes [''ORDERS'', ''INVOIC'', ''DESADV''] = Inr [''DESADV'', ''INVOIC'', ''ORDERS'']
   \<and> sorted_wrt code_le [''DESADV'', ''INVOIC'', ''ORDERS'']
   \<and> sorted_codes [''ORDERS'', ''850''] = Inl TypeError
   \<and> sorted_codes [''A'', replicate 4301 CHR ''1''] = Inl ValueError"
proof -
  have digit: "is_digit_char CHR ''1''" and one: "of_char CHR ''1'' < (128::nat)"
    by (simp_all add: is_digit_char_def)
  have long: "isdigit (replicate 4301 CHR ''1'')" "ascii (replicate 4301 CHR ''1'')"
    using digit one by (simp_all add: isdigit_def ascii_def list_all_iff)
  have mixed: "sorted_codes [''ORDERS'', ''850''] = Inl TypeError"
    using sorted_codes_one_kind [of "[''ORDERS'', ''850'']"]
    by (simp add: ascii_def isdigit_def is_digit_char_def)
  have too_long: "sorted_codes [''A'', replicate 4301 CHR ''1''] = Inl ValueError"
    using sorted_codes_one_kind [of "[''A'', replicate 4301 CHR ''1'']"] long
    by (simp add: ascii_def)
  have e1: "sorted_codes [''810'', ''204'', ''997''] = Inr [''204'', ''810'', ''997'']"
    by code_simp
  have "\<exists>r. sorted_codes [''810'', ''204'', ''997''] = Inr r \<and> sorted_wrt code_le r"
    using sorted_codes_one_kind [of "[''810'', ''204'', ''997'']"]
    by (auto simp: ascii_def isdigit_def is_digit_char_def)
  then have s1: "sorted_wrt code_le [''204'', ''810'', ''997'']"
    unfolding e1 by blast
  have e2: "sorted_codes [''100'', ''99'', ''7''] = Inr [''7'', ''99'', ''100'']"
    by code_simp
  have "\<exists>r. sorted_codes [''100'', ''99'', ''7''] = Inr r \<and> sorted_wrt code_le r"
    using sorted_codes_one_kind [of "[''100'', ''99'', ''7'']"]
    by (auto simp: ascii_def isdigit_def is_digit_char_def)
  then have s2: "sorted_wrt code_le [''7'', ''99'', ''100'']"
    unfolding e2 by blast
  have e3: "sorted_codes [''ORDERS'', ''INVOIC'', ''DESADV'']
      = Inr [''DESADV'', ''INVOIC'', ''ORDERS'']"
    by code_simp
  have "\<exists>r. sorted_codes [''ORDERS'', ''INVOIC'', ''DESADV''] = Inr r \<and> sorted_wrt code_le r"
    using sorted_codes_one_kind [of "[''ORDERS'', ''INVOIC'', ''DESADV'']"]
    by (auto simp: ascii_def isdigit_def is_digit_char_def)
  then have s3: "sorted_wrt code_le [''DESADV'', ''INVOIC'', ''ORDERS'']"
    unfolding e3 by blast
  show ?thesis
    using e1 s1 e2 s2 e3 s3 mixed too_long by blast
qed

text \<open>
  Claim C1 as stated fails: the codes \<open>204\<close> and \<open>ORDERS\<close> in one standard make
  the sort of \<open>list_edi_documents\<close> raise TypeError.
\<close>

theorem sorted_codes_mixed_counterexample:
  "sorted_codes [''204'', ''ORDERS''] = Inl TypeError"
  by (simp add: sorted_codes_def code_key_def isdigit_def is_digit_char_def)

subsection \<open>The search\<close>

text \<open>The inner and the outer loop of the search, and the search itself, in closed form.\<close>

lemma search_docs_eq:
  "search_docs fill c show_all standard docs (out, found) =
     (out @ concat (map (\<lambda>(k, d). standard_header standard # doc_entry fill k d)
                 (filter (\<lambda>(k, d). str_in c k \<or> show_all) docs)),
      found \<or> (\<exists>(k, d)\<in>set docs. str_in c k \<or> show_all))"
proof (induction docs arbitrary: out found)
  case Nil
  then show ?case by simp
next
  case (Cons kd docs)
  obtain k d where kd: "kd = (k, d)"
    by (cases kd)
  show ?case
    using Cons.IH by (cases "str_in c k"; cases show_all; auto simp: kd)
qed

lemma search_standards_eq:
  "search_standards fill c show_all ds (out, found) =
     (out @ hits fill (\<lambda>k. str_in c k \<or> show_all) ds,
      found \<or> (\<exists>sd\<in>set ds. \<exists>kd\<in>set (snd sd). str_in c (fst kd) \<or> show_all))"
proof (induction ds arbitrary: out found)
  case Nil
  then show ?case by (simp add: hits_def)
next
  case (Cons sd ds)
  obtain standard docs where sd: "sd = (standard, docs)"
    by (cases sd)
  show ?case
    unfolding sd search_standards.simps search_docs_eq Cons.IH
    by (auto simp: hits_def case_prod_beta)
qed

lemma search_edi_code_eq:
  "search_edi_code fill c show_all =
     search_title (upper c) # hits fill (\<lambda>k. str_in (upper c) k \<or> show_all) get_edi_documents
     @ (if \<exists>sd\<in>set get_edi_documents. \<exists>kd\<in>set (snd sd). str_in (upper c) (fst kd) \<or> show_all
        then [] else [no_documents_message (upper c)])"
  by (simp add: search_edi_code_def search_standards_eq Let_def)


lemma hits_every:
  "hits fill (\<lambda>k. True) get_edi_documents = every_document fill"
  by (simp add: hits_def every_document_def standard_header_def doc_entry_lines)

lemma hits_contains:
  assumes "(standard, docs) \<in> set ds" and "(k, d) \<in> set docs" and "p k"
  shows "\<exists>pre post. hits fill p ds = pre @ standard_header standard # doc_entry fill k d @ post"
proof -
  from assms(1) obtain ds1 ds2 where ds: "ds = ds1 @ (standard, docs) # ds2"
    by (auto dest: split_list)
  from assms(2) obtain docs1 docs2 where docs: "docs = docs1 @ (k, d) # docs2"
    by (auto dest: split_list)
  have "hits fill p ds = hits fill p ds1
          @ concat (map (\<lambda>(k, d). standard_header standard # doc_entry fill k d)
               (filter (\<lambda>(k, d). p k) docs1))
          @ standard_header standard # doc_entry fill k d
          @ (concat (map (\<lambda>(k, d). standard_header standard # doc_entry fill k d)
               (filter (\<lambda>(k, d). p k) docs2)) @ hits fill p ds2)"
    using assms(3) by (simp add: hits_def ds docs)
  then show ?thesis
    by (metis append.assoc)
qed

lemma starts_with_refl: "starts_with a a"
  by (induction a) auto

lemma str_in_refl: "str_in a a"
  by (cases a) (auto simp: starts_with_refl)

lemma str_in_empty: "str_in [] b"
  by (cases b) auto

lemma upper_empty: "upper [] = []"
  by (simp add: upper_def)

lemma dataset_nonempty:
  "\<exists>sd\<in>set get_edi_documents. \<exists>kd. kd \<in> set (snd sd)"
proof -
  have "\<exists>sd\<in>set get_edi_documents. snd sd \<noteq> []"
    by (simp add: get_edi_documents_def x12_docs_def)
  then show ?thesis
    by (metis hd_in_set)
qed


lemma doc_entry_head:
  "\<exists>rest. doc_entry fill k d = (bullet @ '' '' @ k @ '': '' @ name d) # rest"
  by (simp add: doc_entry_def)

lemmas docs_defs =
  get_edi_documents_def x12_docs_def edifact_docs_def tradacoms_docs_def vda_docs_def
  rosettanet_docs_def

lemma dataset_keys:
  "\<forall>sd\<in>set get_edi_documents. \<forall>kd\<in>set (snd sd). fst kd = code (snd kd) \<and> upper (fst kd) = fst kd"
  by (simp add: docs_defs upper_def upper_char_def)

text \<open>
  Claim C2. For every standard of the table and every document registered under it, the
  search for the document's code without \<open>show_all\<close> prints, somewhere in its output,
  the header of that standard directly followed by the bullet line with exactly the
  document's code and name.
\<close>

theorem search_finds_document:
  "\<forall>(standard, docs)\<in>set get_edi_documents. \<forall>(k, d)\<in>set docs.
     \<exists>pre post. search_edi_code fill (code d) False =
       pre @ [standard_header standard, bullet @ '' '' @ code d @ '': '' @ name d] @ post"
proof (intro ballI, clarify)
  fix standard docs k d
  assume sd: "(standard, docs) \<in> set get_edi_documents" and kd: "(k, d) \<in> set docs"
  have key: "k = code d" "upper k = k"
    using dataset_keys sd kd by force+
  have "str_in (upper (code d)) k \<or> False"
    using key by (simp add: str_in_refl)
  from hits_contains [OF sd kd, of "\<lambda>k. str_in (upper (code d)) k \<or> False", OF this]
  obtain pre post where
    "hits fill (\<lambda>k. str_in (upper (code d)) k \<or> False) get_edi_documents =
       pre @ standard_header standard # doc_entry fill k d @ post"
    by blast
  moreover obtain rest where "doc_entry fill k d = (bullet @ '' '' @ k @ '': '' @ name d) # rest"
    using doc_entry_head by blast
  ultimately have "search_edi_code fill (code d) False =
      (search_title (upper (code d)) # pre)
      @ [standard_header standard, bullet @ '' '' @ code d @ '': '' @ name d]
      @ (rest @ post @ (if \<exists>sd\<in>set get_edi_documents. \<exists>kd\<in>set (snd sd).
             str_in (upper (code d)) (fst kd) \<or> False
        then [] else [no_documents_message (upper (code d))]))"
    unfolding search_edi_code_eq using key(1) by simp
  then show "\<exists>pre post. search_edi_code fill (code d) False =
       pre @ [standard_header standard, bullet @ '' '' @ code d @ '': '' @ name d] @ post"
    by blast
qed

theorem search_finds_document_witness:
  "\<exists>pre post. search_edi_code (\<lambda>d. d) ''850'' False =
     pre @ [''== ANSI X12 (North American Standard) =='', bullet @ '' 850: Purchase Order''] @ post"
proof -
  have "(EdiStandard.name ANSI_X12, x12_docs) \<in> set get_edi_documents"
    by (simp add: get_edi_documents_def)
  moreover have "(''850'', snd (x12_docs ! 5)) \<in> set x12_docs"
    by (simp add: x12_docs_def)
  ultimately have "\<exists>pre post. search_edi_code (\<lambda>d. d) (code (snd (x12_docs ! 5))) False =
       pre @ [standard_header (EdiStandard.name ANSI_X12),
              bullet @ '' '' @ code (snd (x12_docs ! 5)) @ '': '' @ name (snd (x12_docs ! 5))] @ post"
    using search_finds_document [of "\<lambda>d. d"] by fast
  then show ?thesis
    by (simp add: x12_docs_def ANSI_X12_def standard_header_def)
qed




lemma search_all:
  "search_edi_code fill c True = search_title (upper c) # every_document fill"
proof -
  have "\<exists>sd\<in>set get_edi_documents. \<exists>kd\<in>set (snd sd). str_in (upper c) (fst kd) \<or> True"
    using dataset_nonempty by auto
  then show ?thesis
    unfolding search_edi_code_eq by (simp add: hits_every)
qed

lemma search_empty:
  "search_edi_code fill [] False = search_title [] # every_document fill"
proof -
  have "\<exists>sd\<in>set get_edi_documents. \<exists>kd\<in>set (snd sd). str_in (upper []) (fst kd) \<or> False"
    using dataset_nonempty by (auto simp: upper_empty str_in_empty)
  then show ?thesis
    unfolding search_edi_code_eq by (simp add: hits_every upper_empty str_in_empty)
qed

text \<open>
  Claim C5. With \<open>show_all\<close> the search prints, after its title, every document of
  every standard, once per (standard, document) pair and in table order, whatever
  the code is: after the one title line the output is \<open>every_document\<close>. The title
  quotes the code in upper case (stated for ASCII codes).
\<close>

theorem search_show_all:
  "\<exists>title. search_edi_code fill c True = title # every_document fill
     \<and> (ascii c \<longrightarrow>
          title = nl @ ''Search Results for '' @ [CHR 0x27] @ upper c @ [CHR 0x27] @ '':'' @ nl)"
  by (simp add: search_all search_title_def quote_def)

text \<open>
  The theorem at the codes \<open>''\<close> and \<open>inv\<close>: the first eight texts printed, the
  bullet lines of the whole output in order (the 29 documents, in table order), and the
  number of texts (the title and 29 times a header and six lines).
\<close>

theorem search_show_all_witness:
  "take 8 (search_edi_code (\<lambda>d. d) [] True) =
     [nl @ ''Search Results for '' @ [CHR 0x27] @ [CHR 0x27] @ '':'' @ nl,
      ''== ANSI X12 (North American Standard) =='',
      bullet @ '' 204: Motor Carrier Load Tender'',
      ''  Direction: Outbound'',
      ''  Flow: Shipper '' @ arrow @ '' Carrier'',
      ''  Versions: 4010, 4030, 5010, 6030'',
      ''  Industries: LOGISTICS, MANUFACTURING'',
      ''  Description: A transportation order for shipping goods between locations'' @ nl]
   \<and> filter (starts_with bullet) (search_edi_code (\<lambda>d. d) [] True) =
     [bullet @ '' 204: Motor Carrier Load Tender'',
      bullet @ '' 210: Motor Carrier Freight Details and Invoice'',
      bullet @ '' 810: Invoice'',
      bullet @ '' 820: Payment Order/Remittance Advice'',
      bullet @ '' 834: Benefit Enrollment and Maintenance'',
      bullet @ '' 850: Purchase Order'',
      bullet @ '' 855: Purchase Order Acknowledgment'',
      bullet @ '' 856: Advance Shipping Notice'',
      bullet @ '' 940: Warehouse Shipping Order'',
      bullet @ '' 945: Warehouse Shipping Advice'',
      bullet @ '' 997: Functional Acknowledgment'',
      bullet @ '' DESADV: Dispatch Advice'',
      bullet @ '' IFCSUM: International Forwarding and Consolidation Summary'',
      bullet @ '' INVOIC: Invoice'',
      bullet @ '' ORDERS: Purchase Order'',
      bullet @ '' ORDRSP: Order Response'',
      bullet @ '' PRICAT: Price/Sales Catalog'',
      bullet @ '' RECADV: Receiving Advice'',
      bullet @ '' DELHDR: Delivery Header'',
      bullet @ '' INVFIL: Invoice File'',
      bullet @ '' ORDHDR: Order Header'',
      bullet @ '' ORDCHG: Order Change'',
      bullet @ '' 4905: Delivery Schedule'',
      bullet @ '' 4913: Invoice'',
      bullet @ '' 4981: Shipping Notification'',
      bullet @ '' 3A4: Purchase Order'',
      bullet @ '' 3A8: Purchase Order Change'',
      bullet @ '' 3B2: Shipping Notification'',
      bullet @ '' 4B2: Advance Shipment Notification'']
   \<and> length (search_edi_code (\<lambda>d. d) [] True) = 204
   \<and> take 3 (search_edi_code (\<lambda>d. d) ''inv'' True) =
     [nl @ ''Search Results for '' @ [CHR 0x27] @ ''INV'' @ [CHR 0x27] @ '':'' @ nl,
      ''== ANSI X12 (North American Standard) =='',
      bullet @ '' 204: Motor Carrier Load Tender'']
   \<and> drop 1 (search_edi_code (\<lambda>d. d) ''inv'' True) = drop 1 (search_edi_code (\<lambda>d. d) [] True)"
proof -
  have a: "ascii []" "ascii ''inv''"
    by (simp_all add: ascii_def)
  have u: "upper [] = []" "upper ''inv'' = ''INV''"
    by (simp_all add: upper_def upper_char_def)
  have e: "search_edi_code (\<lambda>d. d) [] True =
      (nl @ ''Search Results for '' @ [CHR 0x27] @ [CHR 0x27] @ '':'' @ nl) # every_document (\<lambda>d. d)"
    using search_show_all [of "\<lambda>d. d" "[]"] a(1) by (auto simp: u)
  have i: "search_edi_code (\<lambda>d. d) ''inv'' True =
      (nl @ ''Search Results for '' @ [CHR 0x27] @ ''INV'' @ [CHR 0x27] @ '':'' @ nl) # every_document (\<lambda>d. d)"
    using search_show_all [of "\<lambda>d. d" "''inv''"] a(2) by (auto simp: u)
  have 1: "take 8 ((nl @ ''Search Results for '' @ [CHR 0x27] @ [CHR 0x27] @ '':'' @ nl) # every_document (\<lambda>d. d)) =
     [nl @ ''Search Results for '' @ [CHR 0x27] @ [CHR 0x27] @ '':'' @ nl,
      ''== ANSI X12 (North American Standard) =='',
      bullet @ '' 204: Motor Carrier Load Tender'',
      ''  Direction: Outbound'',
      ''  Flow: Shipper '' @ arrow @ '' Carrier'',
      ''  Versions: 4010, 4030, 5010, 6030'',
      ''  Industries: LOGISTICS, MANUFACTURING'',
      ''  Description: A transportation order for shipping goods between locations'' @ nl]"
    by code_simp
  have 2: "filter (starts_with bullet) ((nl @ ''Search Results for '' @ [CHR 0x27] @ [CHR 0x27] @ '':'' @ nl) # every_document (\<lambda>d. d)) =
     [bullet @ '' 204: Motor Carrier Load Tender'',
      bullet @ '' 210: Motor Carrier Freight Details and Invoice'',
      bullet @ '' 810: Invoice'',
      bullet @ '' 820: Payment Order/Remittance Advice'',
      bullet @ '' 834: Benefit Enrollment and Maintenance'',
      bullet @ '' 850: Purchase Order'',
      bullet @ '' 855: Purchase Order Acknowledgment'',
      bullet @ '' 856: Advance Shipping Notice'',
      bullet @ '' 940: Warehouse Shipping Order'',
      bullet @ '' 945: Warehouse Shipping Advice'',
      bullet @ '' 997: Functional Acknowledgment'',
      bullet @ '' DESADV: Dispatch Advice'',
      bullet @ '' IFCSUM: International Forwarding and Consolidation Summary'',
      bullet @ '' INVOIC: Invoice'',
      bullet @ '' ORDERS: Purchase Order'',
      bullet @ '' ORDRSP: Order Response'',
      bullet @ '' PRICAT: Price/Sales Catalog'',
      bullet @ '' RECADV: Receiving Advice'',
      bullet @ '' DELHDR: Delivery Header'',
      bullet @ '' INVFIL: Invoice File'',
      bullet @ '' ORDHDR: Order Header'',
      bullet @ '' ORDCHG: Order Change'',
      bullet @ '' 4905: Delivery Schedule'',
      bullet @ '' 4913: Invoice'',
      bullet @ '' 4981: Shipping Notification'',
      bullet @ '' 3A4: Purchase Order'',
      bullet @ '' 3A8: Purchase Order Change'',
      bullet @ '' 3B2: Shipping Notification'',
      bullet @ '' 4B2: Advance Shipment Notification'']"
    by code_simp
  have 3: "length ((nl @ ''Search Results for '' @ [CHR 0x27] @ [CHR 0x27] @ '':'' @ nl) # every_document (\<lambda>d. d)) = 204"
    by code_simp
  have 4: "take 3 ((nl @ ''Search Results for '' @ [CHR 0x27] @ ''INV'' @ [CHR 0x27] @ '':'' @ nl) # every_document (\<lambda>d. d)) =
     [nl @ ''Search Results for '' @ [CHR 0x27] @ ''INV'' @ [CHR 0x27] @ '':'' @ nl,
      ''== ANSI X12 (North American Standard) =='',
      bullet @ '' 204: Motor Carrier Load Tender'']"
    by code_simp
  show ?thesis
    unfolding e i using 1 2 3 4 by simp
qed

text \<open>
  Claim C10. The search for the empty code without \<open>show_all\<close> prints, after its
  title, every document of every standard, the same output as with \<open>show_all\<close>: the
  empty string occurs in every key.
\<close>

theorem search_empty_code:
  "search_edi_code fill [] False =
     (nl @ ''Search Results for '' @ [CHR 0x27] @ [CHR 0x27] @ '':'' @ nl) # every_document fill
   \<and> search_edi_code fill [] False = search_edi_code fill [] True"
  by (simp add: search_empty search_all upper_empty search_title_def quote_def)

text \<open>
  The theorem with the identity for \<open>fill\<close>: the last seven texts printed (the entry of
  the last document of the table under its header), the header lines of the whole
  output in order, and the number of texts.
\<close>

theorem search_empty_code_witness:
  "drop 197 (search_edi_code (\<lambda>d. d) [] False) =
     [''== RosettaNet (Technology Industry Standard) =='',
      bullet @ '' 4B2: Advance Shipment Notification'',
      ''  Direction: Outbound'',
      ''  Flow: Supplier '' @ arrow @ '' Buyer'',
      ''  Versions: 02.00.00'',
      ''  Industries: TECHNOLOGY'',
      ''  Description: Detailed shipment information for technology supply chain'' @ nl]
   \<and> filter (starts_with ''== '') (search_edi_code (\<lambda>d. d) [] False) =
     [''== ANSI X12 (North American Standard) =='',
      ''== ANSI X12 (North American Standard) =='',
      ''== ANSI X12 (North American Standard) =='',
      ''== ANSI X12 (North American Standard) =='',
      ''== ANSI X12 (North American Standard) =='',
      ''== ANSI X12 (North American Standard) =='',
      ''== ANSI X12 (North American Standard) =='',
      ''== ANSI X12 (North American Standard) =='',
      ''== ANSI X12 (North American Standard) =='',
      ''== ANSI X12 (North American Standard) =='',
      ''== ANSI X12 (North American Standard) =='',
      ''== EDIFACT (International Standard) =='',
      ''== EDIFACT (International Standard) =='',
      ''== EDIFACT (International Standard) =='',
      ''== EDIFACT (International Standard) =='',
      ''== EDIFACT (International Standard) =='',
      ''== EDIFACT (International Standard) =='',
      ''== EDIFACT (International Standard) =='',
      ''== TRADACOMS (UK Retail Standard) =='',
      ''== TRADACOMS (UK Retail Standard) =='',
      ''== TRADACOMS (UK Retail Standard) =='',
      ''== TRADACOMS (UK Retail Standard) =='',
      ''== VDA (German Automotive Standard) =='',
      ''== VDA (German Automotive Standard) =='',
      ''== VDA (German Automotive Standard) =='',
      ''== RosettaNet (Technology Industry Standard) =='',
      ''== RosettaNet (Technology Industry Standard) =='',
      ''== RosettaNet (Technology Industry Standard) =='',
      ''== RosettaNet (Technology Industry Standard) =='']
   \<and> map (\<lambda>l. take 9 (drop 4 l)) (filter (starts_with bullet) (search_edi_code (\<lambda>d. d) [] False)) =
     [''204: Moto'',
      ''210: Moto'',
      ''810: Invo'',
      ''820: Paym'',
      ''834: Bene'',
      ''850: Purc'',
      ''855: Purc'',
      ''856: Adva'',
      ''940: Ware'',
      ''945: Ware'',
      ''997: Func'',
      ''DESADV: D'',
      ''IFCSUM: I'',
      ''INVOIC: I'',
      ''ORDERS: P'',
      ''ORDRSP: O'',
      ''PRICAT: P'',
      ''RECADV: R'',
      ''DELHDR: D'',
      ''INVFIL: I'',
      ''ORDHDR: O'',
      ''ORDCHG: O'',
      ''4905: Del'',
      ''4913: Inv'',
      ''4981: Shi'',
      ''3A4: Purc'',
      ''3A8: Purc'',
      ''3B2: Ship'',
      ''4B2: Adva'']
   \<and> length (search_edi_code (\<lambda>d. d) [] False) = 204"
proof -
  have e: "search_edi_code (\<lambda>d. d) [] False =
      (nl @ ''Search Results for '' @ [CHR 0x27] @ [CHR 0x27] @ '':'' @ nl) # every_document (\<lambda>d. d)"
    using search_empty_code [of "\<lambda>d. d"] by blast
  have 1: "drop 197 ((nl @ ''Search Results for '' @ [CHR 0x27] @ [CHR 0x27] @ '':'' @ nl) # every_document (\<lambda>d. d)) =
     [''== RosettaNet (Technology Industry Standard) =='',
      bullet @ '' 4B2: Advance Shipment Notification'',
      ''  Direction: Outbound'',
      ''  Flow: Supplier '' @ arrow @ '' Buyer'',
      ''  Versions: 02.00.00'',
      ''  Industries: TECHNOLOGY'',
      ''  Description: Detailed shipment information for technology supply chain'' @ nl]"
    by code_simp
  have 2: "filter (starts_with ''== '') ((nl @ ''Search Results for '' @ [CHR 0x27] @ [CHR 0x27] @ '':'' @ nl) # every_document (\<lambda>d. d)) =
     [''== ANSI X12 (North American Standard) =='',
      ''== ANSI X12 (North American Standard) =='',
      ''== ANSI X12 (North American Standard) =='',
      ''== ANSI X12 (North American Standard) =='',
      ''== ANSI X12 (North American Standard) =='',
      ''== ANSI X12 (North American Standard) =='',
      ''== ANSI X12 (North American Standard) =='',
      ''== ANSI X12 (North American Standard) =='',
      ''== ANSI X12 (North American Standard) =='',
      ''== ANSI X12 (North American Standard) =='',
      ''== ANSI X12 (North American Standard) =='',
      ''== EDIFACT (International Standard) =='',
      ''== EDIFACT (International Standard) =='',
      ''== EDIFACT (International Standard) =='',
      ''== EDIFACT (International Standard) =='',
      ''== EDIFACT (International Standard) =='',
      ''== EDIFACT (International Standard) =='',
      ''== EDIFACT (International Standard) =='',
      ''== TRADACOMS (UK Retail Standard) =='',
      ''== TRADACOMS (UK Retail Standard) =='',
      ''== TRADACOMS (UK Retail Standard) =='',
      ''== TRADACOMS (UK Retail Standard) =='',
      ''== VDA (German Automotive Standard) =='',
      ''== VDA (German Automotive Standard) =='',
      ''== VDA (German Automotive Standard) =='',
      ''== RosettaNet (Technology Industry Standard) =='',
      ''== RosettaNet (Technology Industry Standard) =='',
      ''== RosettaNet (Technology Industry Standard) =='',
      ''== RosettaNet (Technology Industry Standard) =='']"
    by code_simp
  have 3: "map (\<lambda>l. take 9 (drop 4 l)) (filter (starts_with bullet) ((nl @ ''Search Results for '' @ [CHR 0x27] @ [CHR 0x27] @ '':'' @ nl) # every_document (\<lambda>d. d))) =
     [''204: Moto'',
      ''210: Moto'',
      ''810: Invo'',
      ''820: Paym'',
      ''834: Bene'',
      ''850: Purc'',
      ''855: Purc'',
      ''856: Adva'',
      ''940: Ware'',
      ''945: Ware'',
      ''997: Func'',
      ''DESADV: D'',
      ''IFCSUM: I'',
      ''INVOIC: I'',
      ''ORDERS: P'',
      ''ORDRSP: O'',
      ''PRICAT: P'',
      ''RECADV: R'',
      ''DELHDR: D'',
      ''INVFIL: I'',
      ''ORDHDR: O'',
      ''ORDCHG: O'',
      ''4905: Del'',
      ''4913: Inv'',
      ''4981: Shi'',
      ''3A4: Purc'',
      ''3A8: Purc'',
      ''3B2: Ship'',
      ''4B2: Adva'']"
    by code_simp
  have 4: "length ((nl @ ''Search Results for '' @ [CHR 0x27] @ [CHR 0x27] @ '':'' @ nl) # every_document (\<lambda>d. d)) = 204"
    by code_simp
  show ?thesis
    unfolding e using 1 2 3 4 by simp
qed

subsection \<open>The listing\<close>

text \<open>The inner and the outer loop of the listing in closed form, and the listing of the table.\<close>

lemma list_codes_eq:
  assumes "set cs \<subseteq> fst ` set docs"
  shows "list_codes fill fi docs cs =
     Inr (concat (map (\<lambda>(c, d). doc_entry fill c d)
            (filter (\<lambda>(c, d). \<not> skipped fi d) (in_order docs cs))))"
  using assms
proof (induction cs)
  case Nil
  then show ?case by (simp add: in_order_def)
next
  case (Cons c cs)
  then have "c \<in> fst ` set docs"
    by simp
  then obtain d where d: "map_of docs c = Some d"
    by (metis map_of_eq_None_iff not_None_eq)
  have "in_order docs (c # cs) = (c, d) # in_order docs cs"
    by (simp add: in_order_def d)
  then show ?case
    using Cons d by simp
qed

lemma list_sections_eq:
  assumes "list_all2 (\<lambda>sd codes. sorted_codes (map fst (snd sd)) = Inr codes) ds orders"
  shows "list_sections fill fi ds =
     Inr (concat (map2 (section_of fill (\<lambda>d. \<not> skipped fi d)) ds orders))"
  using assms
proof (induction ds orders rule: list_all2_induct)
  case Nil
  then show ?case by simp
next
  case (Cons sd ds codes orders)
  obtain standard docs where sd: "sd = (standard, docs)"
    by (cases sd)
  have sorted: "sorted_codes (map fst docs) = Inr codes"
    using Cons.hyps(1) by (simp add: sd)
  then have "set codes = set (map fst docs)"
    using sorted_codes_Inr by (metis set_mset_mset)
  then have "set codes \<subseteq> fst ` set docs"
    by simp
  from list_codes_eq [OF this] show ?case
    by (simp add: sd sorted Cons.IH section_of_def standard_header_def divider_def doc_entry_lines)
qed

lemma dataset_sorted:
  "list_all2 (\<lambda>sd codes. distinct (map fst (snd sd)) \<and> sorted_codes (map fst (snd sd)) = Inr codes)
     get_edi_documents document_order"
  by (simp add: docs_defs document_order_def sorted_codes_def code_key_def isdigit_def
      is_digit_char_def decimal_def)

lemma list_body_dataset:
  "list_body fill fi get_edi_documents =
     Inr (list_title # concat (map2 (section_of fill (\<lambda>d. \<not> skipped fi d))
            get_edi_documents document_order))"
proof -
  have "list_all2 (\<lambda>sd codes. sorted_codes (map fst (snd sd)) = Inr codes)
          get_edi_documents document_order"
    using dataset_sorted by (rule list_all2_mono) simp
  then show ?thesis
    by (simp add: list_body_def list_sections_eq)
qed

lemma dataset_order:
  "list_all2 (\<lambda>sd codes. distinct (map fst (snd sd)) \<and> mset codes = mset (map fst (snd sd))
        \<and> sorted_wrt code_le codes)
     get_edi_documents document_order"
  using dataset_sorted by (rule list_all2_mono) (auto dest: sorted_codes_Inr)

text \<open>
  Claim C4. The listing without filters prints, after its title, a section for every
  standard of the table, in table order; the section holds the entries of the
  standard's documents in the order \<open>document_order\<close>, which for every standard is a
  permutation of its (distinct) keys in non-decreasing key order: digit strings by
  the number they write, other codes lexically.
\<close>

theorem list_all_documents:
  "list_edi_documents fill None None =
     Inr ((nl @ ''EDI Document Reference:'' @ nl)
          # concat (map2 (section_of fill (\<lambda>d. True)) get_edi_documents document_order))
   \<and> list_all2 (\<lambda>(standard, docs) codes.
         distinct (map fst docs) \<and> mset codes = mset (map fst docs) \<and> sorted_wrt code_le codes)
       get_edi_documents document_order"
proof
  show "list_edi_documents fill None None =
     Inr ((nl @ ''EDI Document Reference:'' @ nl)
          # concat (map2 (section_of fill (\<lambda>d. True)) get_edi_documents document_order))"
    by (simp add: list_body_dataset list_title_def)
  show "list_all2 (\<lambda>(standard, docs) codes.
         distinct (map fst docs) \<and> mset codes = mset (map fst docs) \<and> sorted_wrt code_le codes)
       get_edi_documents document_order"
    using dataset_order by (rule list_all2_mono) (simp add: case_prod_beta)
qed

text \<open>
  The theorem with the identity for \<open>fill\<close>: the first nine texts printed (the title,
  the header and the divider of ANSI X12, the entry of 204), the header lines and the
  bullet lines of the whole output in order, and the number of texts (the title, five
  times a header and a divider, 29 times six lines).
\<close>

theorem list_all_documents_witness:
  "\<exists>out. list_edi_documents (\<lambda>d. d) None None = Inr out
     \<and> take 9 out =
     [nl @ ''EDI Document Reference:'' @ nl,
      ''== ANSI X12 (North American Standard) =='',
      ''--------------------------------------'' @ nl,
      bullet @ '' 204: Motor Carrier Load Tender'',
      ''  Direction: Outbound'',
      ''  Flow: Shipper '' @ arrow @ '' Carrier'',
      ''  Versions: 4010, 4030, 5010, 6030'',
      ''  Industries: LOGISTICS, MANUFACTURING'',
      ''  Description: A transportation order for shipping goods between locations'' @ nl]
     \<and> filter (starts_with ''== '') out =
     [''== ANSI X12 (North American Standard) =='',
      ''== EDIFACT (International Standard) =='',
      ''== TRADACOMS (UK Retail Standard) =='',
      ''== VDA (German Automotive Standard) =='',
      ''== RosettaNet (Technology Industry Standard) =='']
     \<and> filter (starts_with bullet) out =
     [bullet @ '' 204: Motor Carrier Load Tender'',
      bullet @ '' 210: Motor Carrier Freight Details and Invoice'',
      bullet @ '' 810: Invoice'',
      bullet @ '' 820: Payment Order/Remittance Advice'',
      bullet @ '' 834: Benefit Enrollment and Maintenance'',
      bullet @ '' 850: Purchase Order'',
      bullet @ '' 855: Purchase Order Acknowledgment'',
      bullet @ '' 856: Advance Shipping Notice'',
      bullet @ '' 940: Warehouse Shipping Order'',
      bullet @ '' 945: Warehouse Shipping Advice'',
      bullet @ '' 997: Functional Acknowledgment'',
      bullet @ '' DESADV: Dispatch Advice'',
      bullet @ '' IFCSUM: International Forwarding and Consolidation Summary'',
      bullet @ '' INVOIC: Invoice'',
      bullet @ '' ORDERS: Purchase Order'',
      bullet @ '' ORDRSP: Order Response'',
      bullet @ '' PRICAT: Price/Sales Catalog'',
      bullet @ '' RECADV: Receiving Advice'',
      bullet @ '' DELHDR: Delivery Header'',
      bullet @ '' INVFIL: Invoice File'',
      bullet @ '' ORDCHG: Order Change'',
      bullet @ '' ORDHDR: Order Header'',
      bullet @ '' 4905: Delivery Schedule'',
      bullet @ '' 4913: Invoice'',
      bullet @ '' 4981: Shipping Notification'',
      bullet @ '' 3A4: Purchase Order'',
      bullet @ '' 3A8: Purchase Order Change'',
      bullet @ '' 3B2: Shipping Notification'',
      bullet @ '' 4B2: Advance Shipment Notification'']
     \<and> length out = 185"
proof -
  let ?out = "(nl @ ''EDI Document Reference:'' @ nl)
          # concat (map2 (section_of (\<lambda>d. d) (\<lambda>d. True)) get_edi_documents document_order)"
  have e: "list_edi_documents (\<lambda>d. d) None None = Inr ?out"
    using list_all_documents [of "\<lambda>d. d"] by blast
  have 1: "take 9 ?out =
     [nl @ ''EDI Document Reference:'' @ nl,
      ''== ANSI X12 (North American Standard) =='',
      ''--------------------------------------'' @ nl,
      bullet @ '' 204: Motor Carrier Load Tender'',
      ''  Direction: Outbound'',
      ''  Flow: Shipper '' @ arrow @ '' Carrier'',
      ''  Versions: 4010, 4030, 5010, 6030'',
      ''  Industries: LOGISTICS, MANUFACTURING'',
      ''  Description: A transportation order for shipping goods between locations'' @ nl]"
    by code_simp
  have 2: "filter (starts_with ''== '') ?out =
     [''== ANSI X12 (North American Standard) =='',
      ''== EDIFACT (International Standard) =='',
      ''== TRADACOMS (UK Retail Standard) =='',
      ''== VDA (German Automotive Standard) =='',
      ''== RosettaNet (Technology Industry Standard) =='']"
    by code_simp
  have 3: "filter (starts_with bullet) ?out =
     [bullet @ '' 204: Motor Carrier Load Tender'',
      bullet @ '' 210: Motor Carrier Freight Details and Invoice'',
      bullet @ '' 810: Invoice'',
      bullet @ '' 820: Payment Order/Remittance Advice'',
      bullet @ '' 834: Benefit Enrollment and Maintenance'',
      bullet @ '' 850: Purchase Order'',
      bullet @ '' 855: Purchase Order Acknowledgment'',
      bullet @ '' 856: Advance Shipping Notice'',
      bullet @ '' 940: Warehouse Shipping Order'',
      bullet @ '' 945: Warehouse Shipping Advice'',
      bullet @ '' 997: Functional Acknowledgment'',
      bullet @ '' DESADV: Dispatch Advice'',
      bullet @ '' IFCSUM: International Forwarding and Consolidation Summary'',
      bullet @ '' INVOIC: Invoice'',
      bullet @ '' ORDERS: Purchase Order'',
      bullet @ '' ORDRSP: Order Response'',
      bullet @ '' PRICAT: Price/Sales Catalog'',
      bullet @ '' RECADV: Receiving Advice'',
      bullet @ '' DELHDR: Delivery Header'',
      bullet @ '' INVFIL: Invoice File'',
      bullet @ '' ORDCHG: Order Change'',
      bullet @ '' ORDHDR: Order Header'',
      bullet @ '' 4905: Delivery Schedule'',
      bullet @ '' 4913: Invoice'',
      bullet @ '' 4981: Shipping Notification'',
      bullet @ '' 3A4: Purchase Order'',
      bullet @ '' 3A8: Purchase Order Change'',
      bullet @ '' 3B2: Shipping Notification'',
      bullet @ '' 4B2: Advance Shipment Notification'']"
    by code_simp
  have 4: "length ?out = 185"
    by code_simp
  show ?thesis
    using e 1 2 3 4 by blast
qed

subsection \<open>The two filters\<close>

text \<open>The listing of the standards that the standard filter selects.\<close>

lemma dataset_lengths: "length get_edi_documents = length document_order"
  using dataset_sorted by (rule list_all2_lengthD)

lemma listed_standards:
  "map fst (listed fs) = filter (\<lambda>sd. selects fs (fst sd)) get_edi_documents"
proof -
  have "map fst (listed fs)
      = filter (\<lambda>sd. selects fs (fst sd)) (map fst (zip get_edi_documents document_order))"
    by (simp add: listed_def filter_map comp_def split_def)
  then show ?thesis
    by (simp add: dataset_lengths)
qed

lemma list_body_listed:
  "list_body fill fi (map fst (listed fs)) =
     Inr (list_title # concat (map (\<lambda>(sd, codes). section_of fill (\<lambda>d. \<not> skipped fi d) sd codes)
            (listed fs)))"
proof -
  have "\<forall>z\<in>set (zip get_edi_documents document_order).
          sorted_codes (map fst (snd (fst z))) = Inr (snd z)"
    using dataset_sorted by (auto simp: list_all2_iff)
  then have "\<forall>z\<in>set (listed fs). sorted_codes (map fst (snd (fst z))) = Inr (snd z)"
    by (simp add: listed_def)
  then have "list_all2 (\<lambda>sd codes. sorted_codes (map fst (snd sd)) = Inr codes)
      (map fst (listed fs)) (map snd (listed fs))"
    by (simp add: list_all2_iff zip_map_fst_snd split_def)
  from list_sections_eq [OF this, of fill fi] show ?thesis
    by (simp add: list_body_def zip_map_fst_snd)
qed

lemma list_edi_documents_listed:
  "list_edi_documents fill fs fi =
     (if listed fs = []
      then Inr [no_standards_message (case fs of None \<Rightarrow> [] | Some s \<Rightarrow> s)]
      else Inr (list_title # concat (map (\<lambda>(sd, codes). section_of fill (\<lambda>d. \<not> skipped fi d) sd codes)
                  (listed fs))))"
proof -
  note body = list_body_listed [of fill fi fs]
  have all: "listed fs \<noteq> [] \<and> map fst (listed fs) = get_edi_documents"
    if "\<forall>standard. selects fs standard"
  proof -
    have "map fst (listed fs) = get_edi_documents"
      using that by (simp add: listed_standards)
    moreover have "get_edi_documents \<noteq> []"
      by (simp add: get_edi_documents_def)
    ultimately show ?thesis
      by (metis list.map_disc_iff)
  qed
  show ?thesis
  proof (cases "\<forall>standard. selects fs standard")
    case True
    then have "fs = None \<or> fs = Some []"
      by (cases fs) (auto simp: selects_def lower_def dest!: spec [of _ "[]"])
    then have "list_edi_documents fill fs fi = list_body fill fi get_edi_documents"
      by auto
    then show ?thesis
      using all [OF True] body by simp
  next
    case False
    then obtain f where f: "fs = Some f" "f \<noteq> []"
      by (cases fs) (auto simp: selects_def)
    have "filter (\<lambda>(k, v). str_in (lower f) (lower k)) get_edi_documents = map fst (listed fs)"
      using f by (simp add: listed_standards selects_def split_def)
    then have "list_edi_documents fill fs fi =
        (if map fst (listed fs) = [] then Inr [no_standards_message f]
         else list_body fill fi (map fst (listed fs)))"
      using f by (simp add: Let_def)
    then show ?thesis
      using body f(1) by simp
  qed
qed

lemma section_of_cong:
  assumes "\<forall>kd\<in>set (snd sd). keep1 (snd kd) = keep2 (snd kd)"
  shows "section_of fill keep1 sd codes = section_of fill keep2 sd codes"
proof -
  have "\<forall>cd\<in>set (in_order (snd sd) codes). cd \<in> set (snd sd)"
    by (auto simp: in_order_def split: option.splits dest: map_of_SomeD [OF sym])
  then have "filter (\<lambda>(c, d). keep1 d) (in_order (snd sd) codes)
      = filter (\<lambda>(c, d). keep2 d) (in_order (snd sd) codes)"
    using assms by (intro filter_cong) (auto simp: case_prod_beta)
  then show ?thesis
    by (simp add: section_of_def)
qed

lemma section_of_empty:
  assumes "\<forall>kd\<in>set (snd sd). \<not> keep (snd kd)"
  shows "section_of fill keep sd codes =
     [''== '' @ fst sd @ '' =='', replicate (length (fst sd) + 4) CHR ''-'' @ nl]"
proof -
  have "section_of fill keep sd codes = section_of fill (\<lambda>d. False) sd codes"
    using assms by (intro section_of_cong) simp
  then show ?thesis
    by (simp add: section_of_def)
qed

lemma dataset_industries:
  "\<forall>sd\<in>set get_edi_documents. \<forall>kd\<in>set (snd sd). industries (snd kd) \<noteq> []"
  by (simp add: docs_defs)

lemma skipped_has_industry:
  "industries d \<noteq> [] \<Longrightarrow> (\<not> skipped (Some f) d) = has_industry f d"
  by (cases "industries d") (auto simp: has_industry_def lower_def str_in_empty)

lemma listed_sections_industry:
  "map (\<lambda>(sd, codes). section_of fill (\<lambda>d. \<not> skipped (Some f) d) sd codes) (listed fs)
     = map (\<lambda>(sd, codes). section_of fill (has_industry f) sd codes) (listed fs)"
proof (rule map_cong [OF refl])
  fix z
  assume "z \<in> set (listed fs)"
  then have "fst z \<in> set get_edi_documents"
    by (auto simp: listed_def dest: set_zip_leftD)
  then have "\<forall>kd\<in>set (snd (fst z)). (\<not> skipped (Some f) (snd kd)) = has_industry f (snd kd)"
    using dataset_industries skipped_has_industry by blast
  then have "section_of fill (\<lambda>d. \<not> skipped (Some f) d) (fst z) (snd z)
      = section_of fill (has_industry f) (fst z) (snd z)"
    by (rule section_of_cong)
  then show "(case z of (sd, codes) \<Rightarrow> section_of fill (\<lambda>d. \<not> skipped (Some f) d) sd codes)
      = (case z of (sd, codes) \<Rightarrow> section_of fill (has_industry f) sd codes)"
    by (simp add: case_prod_beta)
qed

text \<open>
  Claim C6. Under an industry filter \<open>f\<close>, with or without a standard filter (both
  ASCII text), the listing prints the title and a section for every standard that the
  standard filter selects; every section keeps exactly the documents for which some
  industry name contains \<open>f\<close>, letter case aside, and skips the others. A standard of
  which every document is skipped still gets its header and its divider, with nothing
  beneath. When the standard filter selects no standard, the output is the one message
  that no standard was found.
\<close>

theorem list_by_industry:
  assumes "ascii f" and "ascii_opt fs"
  shows "(listed fs \<noteq> [] \<longrightarrow>
        list_edi_documents fill fs (Some f) =
          Inr ((nl @ ''EDI Document Reference:'' @ nl)
               # concat (map (\<lambda>(sd, codes). section_of fill (has_industry f) sd codes) (listed fs))))
     \<and> (listed fs = [] \<longrightarrow>
          (\<exists>s. fs = Some s \<and> list_edi_documents fill fs (Some f) =
             Inr [nl @ ''No standards found matching '' @ [CHR 0x27] @ s @ [CHR 0x27]]))
     \<and> (\<forall>(sd, codes)\<in>set (listed fs).
          (\<forall>(c, d)\<in>set (snd sd). \<not> has_industry f d) \<longrightarrow>
          section_of fill (has_industry f) sd codes =
            [''== '' @ fst sd @ '' =='', replicate (length (fst sd) + 4) CHR ''-'' @ nl])"
proof (intro conjI impI)
  assume "listed fs \<noteq> []"
  then show "list_edi_documents fill fs (Some f) =
          Inr ((nl @ ''EDI Document Reference:'' @ nl)
               # concat (map (\<lambda>(sd, codes). section_of fill (has_industry f) sd codes) (listed fs)))"
    by (simp only: list_edi_documents_listed listed_sections_industry list_title_def if_False)
next
  assume none: "listed fs = []"
  have "listed None \<noteq> []"
    by code_simp
  then obtain s where s: "fs = Some s"
    using none by (cases fs) auto
  then show "\<exists>s. fs = Some s \<and> list_edi_documents fill fs (Some f) =
             Inr [nl @ ''No standards found matching '' @ [CHR 0x27] @ s @ [CHR 0x27]]"
    using none by (simp add: list_edi_documents_listed no_standards_message_def quote_def
        del: list_edi_documents.simps)
next
  show "\<forall>(sd, codes)\<in>set (listed fs).
          (\<forall>(c, d)\<in>set (snd sd). \<not> has_industry f d) \<longrightarrow>
          section_of fill (has_industry f) sd codes =
            [''== '' @ fst sd @ '' =='', replicate (length (fst sd) + 4) CHR ''-'' @ nl]"
  proof (intro ballI, clarify)
    fix sd :: "string \<times> documents" and codes :: "string list"
    assume "\<forall>(c, d)\<in>set (snd sd). \<not> has_industry f d"
    then have "\<forall>kd\<in>set (snd sd). \<not> has_industry f (snd kd)"
      by (simp add: split_def)
    then show "section_of fill (has_industry f) sd codes =
        [''== '' @ fst sd @ '' =='', replicate (length (fst sd) + 4) CHR ''-'' @ nl]"
      by (rule section_of_empty)
  qed
qed

text \<open>
  The theorem with the identity for \<open>fill\<close> at three calls, with the whole output of
  each: the industry filter \<open>healthcare\<close> alone keeps 810, 834 and 997 of ANSI X12 and
  leaves the four other standards with their two lines; the filters \<open>edifact\<close> and
  \<open>logistics\<close> give the one section of EDIFACT with DESADV and IFCSUM; the standard
  filter \<open>zzz\<close> selects nothing.
\<close>

theorem list_by_industry_witness:
  "list_edi_documents (\<lambda>d. d) None (Some ''healthcare'') =
     Inr [nl @ ''EDI Document Reference:'' @ nl,
          ''== ANSI X12 (North American Standard) =='',
          ''--------------------------------------'' @ nl,
          bullet @ '' 810: Invoice'',
          ''  Direction: Both'',
          ''  Flow: Supplier '' @ arrow @ '' Buyer or Service Provider '' @ arrow @ '' Client'',
          ''  Versions: 4010, 5010, 6030'',
          ''  Industries: RETAIL, MANUFACTURING, HEALTHCARE'',
          ''  Description: Electronic invoice document for billing purposes'' @ nl,
          bullet @ '' 834: Benefit Enrollment and Maintenance'',
          ''  Direction: Both'',
          ''  Flow: Employer '' @ arrow @ '' Insurance Carrier or Government Agency '' @ arrow @ '' Provider'',
          ''  Versions: 4010, 5010, 6030'',
          ''  Industries: HEALTHCARE'',
          ''  Description: Health insurance enrollment information exchange'' @ nl,
          bullet @ '' 997: Functional Acknowledgment'',
          ''  Direction: Both'',
          ''  Flow: Between trading partners'',
          ''  Versions: 4010, 5010, 6030'',
          ''  Industries: RETAIL, MANUFACTURING, HEALTHCARE'',
          ''  Description: Technical confirmation of received EDI transmission'' @ nl,
          ''== EDIFACT (International Standard) =='',
          ''------------------------------------'' @ nl,
          ''== TRADACOMS (UK Retail Standard) =='',
          ''----------------------------------'' @ nl,
          ''== VDA (German Automotive Standard) =='',
          ''------------------------------------'' @ nl,
          ''== RosettaNet (Technology Industry Standard) =='',
          ''---------------------------------------------'' @ nl]
   \<and> list_edi_documents (\<lambda>d. d) (Some ''edifact'') (Some ''logistics'') =
     Inr [nl @ ''EDI Document Reference:'' @ nl,
          ''== EDIFACT (International Standard) =='',
          ''------------------------------------'' @ nl,
          bullet @ '' DESADV: Dispatch Advice'',
          ''  Direction: Outbound'',
          ''  Flow: Supplier '' @ arrow @ '' Buyer'',
          ''  Versions: D96A, D00B, D22B'',
          ''  Industries: LOGISTICS, MANUFACTURING'',
          ''  Description: Notification of goods dispatched (similar to X12 856)'' @ nl,
          bullet @ '' IFCSUM: International Forwarding and Consolidation Summary'',
          ''  Direction: Both'',
          ''  Flow: Between logistics providers'',
          ''  Versions: D96A, D00B, D22B'',
          ''  Industries: LOGISTICS'',
          ''  Description: Shipping consolidation details for international logistics'' @ nl]
   \<and> list_edi_documents (\<lambda>d. d) (Some ''zzz'') (Some ''retail'') =
     Inr [nl @ ''No standards found matching '' @ [CHR 0x27] @ ''zzz'' @ [CHR 0x27]]"
proof -
  have a: "ascii ''healthcare''" "ascii ''logistics''" "ascii ''retail''"
    "ascii_opt None" "ascii_opt (Some ''edifact'')" "ascii_opt (Some ''zzz'')"
    by (simp_all add: ascii_def ascii_opt_def)
  have n: "listed None \<noteq> []" "listed (Some ''edifact'') \<noteq> []" "listed (Some ''zzz'') = []"
    by code_simp+
  have 1: "(nl @ ''EDI Document Reference:'' @ nl)
      # concat (map (\<lambda>(sd, codes). section_of (\<lambda>d. d) (has_industry ''healthcare'') sd codes)
          (listed None)) =
     [nl @ ''EDI Document Reference:'' @ nl,
          ''== ANSI X12 (North American Standard) =='',
          ''--------------------------------------'' @ nl,
          bullet @ '' 810: Invoice'',
          ''  Direction: Both'',
          ''  Flow: Supplier '' @ arrow @ '' Buyer or Service Provider '' @ arrow @ '' Client'',
          ''  Versions: 4010, 5010, 6030'',
          ''  Industries: RETAIL, MANUFACTURING, HEALTHCARE'',
          ''  Description: Electronic invoice document for billing purposes'' @ nl,
          bullet @ '' 834: Benefit Enrollment and Maintenance'',
          ''  Direction: Both'',
          ''  Flow: Employer '' @ arrow @ '' Insurance Carrier or Government Agency '' @ arrow @ '' Provider'',
          ''  Versions: 4010, 5010, 6030'',
          ''  Industries: HEALTHCARE'',
          ''  Description: Health insurance enrollment information exchange'' @ nl,
          bullet @ '' 997: Functional Acknowledgment'',
          ''  Direction: Both'',
          ''  Flow: Between trading partners'',
          ''  Versions: 4010, 5010, 6030'',
          ''  Industries: RETAIL, MANUFACTURING, HEALTHCARE'',
          ''  Description: Technical confirmation of received EDI transmission'' @ nl,
          ''== EDIFACT (International Standard) =='',
          ''------------------------------------'' @ nl,
          ''== TRADACOMS (UK Retail Standard) =='',
          ''----------------------------------'' @ nl,
          ''== VDA (German Automotive Standard) =='',
          ''------------------------------------'' @ nl,
          ''== RosettaNet (Technology Industry Standard) =='',
          ''---------------------------------------------'' @ nl]"
    by code_simp
  have 2: "(nl @ ''EDI Document Reference:'' @ nl)
      # concat (map (\<lambda>(sd, codes). section_of (\<lambda>d. d) (has_industry ''logistics'') sd codes)
          (listed (Some ''edifact''))) =
     [nl @ ''EDI Document Reference:'' @ nl,
          ''== EDIFACT (International Standard) =='',
          ''------------------------------------'' @ nl,
          bullet @ '' DESADV: Dispatch Advice'',
          ''  Direction: Outbound'',
          ''  Flow: Supplier '' @ arrow @ '' Buyer'',
          ''  Versions: D96A, D00B, D22B'',
          ''  Industries: LOGISTICS, MANUFACTURING'',
          ''  Description: Notification of goods dispatched (similar to X12 856)'' @ nl,
          bullet @ '' IFCSUM: International Forwarding and Consolidation Summary'',
          ''  Direction: Both'',
          ''  Flow: Between logistics providers'',
          ''  Versions: D96A, D00B, D22B'',
          ''  Industries: LOGISTICS'',
          ''  Description: Shipping consolidation details for international logistics'' @ nl]"
    by code_simp
  have "list_edi_documents (\<lambda>d. d) None (Some ''healthcare'') =
     Inr [nl @ ''EDI Document Reference:'' @ nl,
          ''== ANSI X12 (North American Standard) =='',
          ''--------------------------------------'' @ nl,
          bullet @ '' 810: Invoice'',
          ''  Direction: Both'',
          ''  Flow: Supplier '' @ arrow @ '' Buyer or Service Provider '' @ arrow @ '' Client'',
          ''  Versions: 4010, 5010, 6030'',
          ''  Industries: RETAIL, MANUFACTURING, HEALTHCARE'',
          ''  Description: Electronic invoice document for billing purposes'' @ nl,
          bullet @ '' 834: Benefit Enrollment and Maintenance'',
          ''  Direction: Both'',
          ''  Flow: Employer '' @ arrow @ '' Insurance Carrier or Government Agency '' @ arrow @ '' Provider'',
          ''  Versions: 4010, 5010, 6030'',
          ''  Industries: HEALTHCARE'',
          ''  Description: Health insurance enrollment information exchange'' @ nl,
          bullet @ '' 997: Functional Acknowledgment'',
          ''  Direction: Both'',
          ''  Flow: Between trading partners'',
          ''  Versions: 4010, 5010, 6030'',
          ''  Industries: RETAIL, MANUFACTURING, HEALTHCARE'',
          ''  Description: Technical confirmation of received EDI transmission'' @ nl,
          ''== EDIFACT (International Standard) =='',
          ''------------------------------------'' @ nl,
          ''== TRADACOMS (UK Retail Standard) =='',
          ''----------------------------------'' @ nl,
          ''== VDA (German Automotive Standard) =='',
          ''------------------------------------'' @ nl,
          ''== RosettaNet (Technology Industry Standard) =='',
          ''---------------------------------------------'' @ nl]"
    using list_by_industry [OF a(1) a(4), of "\<lambda>d. d"] n(1) unfolding 1 by blast
  moreover have "list_edi_documents (\<lambda>d. d) (Some ''edifact'') (Some ''logistics'') =
     Inr [nl @ ''EDI Document Reference:'' @ nl,
          ''== EDIFACT (International Standard) =='',
          ''------------------------------------'' @ nl,
          bullet @ '' DESADV: Dispatch Advice'',
          ''  Direction: Outbound'',
          ''  Flow: Supplier '' @ arrow @ '' Buyer'',
          ''  Versions: D96A, D00B, D22B'',
          ''  Industries: LOGISTICS, MANUFACTURING'',
          ''  Description: Notification of goods dispatched (similar to X12 856)'' @ nl,
          bullet @ '' IFCSUM: International Forwarding and Consolidation Summary'',
          ''  Direction: Both'',
          ''  Flow: Between logistics providers'',
          ''  Versions: D96A, D00B, D22B'',
          ''  Industries: LOGISTICS'',
          ''  Description: Shipping consolidation details for international logistics'' @ nl]"
    using list_by_industry [OF a(2) a(5), of "\<lambda>d. d"] n(2) unfolding 2 by blast
  moreover have "list_edi_documents (\<lambda>d. d) (Some ''zzz'') (Some ''retail'') =
     Inr [nl @ ''No standards found matching '' @ [CHR 0x27] @ ''zzz'' @ [CHR 0x27]]"
    using list_by_industry [OF a(3) a(6), of "\<lambda>d. d"] n(3) by auto
  ultimately show ?thesis
    by blast
qed

subsection \<open>The standard filter\<close>

lemma lower_empty_iff: "lower f = [] \<longleftrightarrow> f = []"
  by (simp add: lower_def)

text \<open>
  Claim C7, as amended. Two standard filters (ASCII text) that differ only in letter
  case give the same output whenever they match some standard of the table. (When they
  match none, each output quotes its own filter as it was typed.)
\<close>

theorem list_standard_filter_case:
  assumes "ascii f1" and "ascii f2" and "lower f1 = lower f2"
    and "\<exists>(k, v)\<in>set get_edi_documents. str_in (lower f1) (lower k)"
    and "ascii_opt fi"
  shows "list_edi_documents fill (Some f1) fi = list_edi_documents fill (Some f2) fi"
proof -
  have empty: "f1 = [] \<longleftrightarrow> f2 = []"
    using assms(3) lower_empty_iff by metis
  have "filter (\<lambda>(k, v). str_in (lower f1) (lower k)) get_edi_documents \<noteq> []"
    using assms(4) by (auto simp: filter_empty_conv)
  then show ?thesis
    using empty assms(3) by (simp add: Let_def)
qed

theorem list_standard_filter_case_witness:
  "ascii ''x12'' \<and> ascii ''X12'' \<and> lower ''x12'' = lower ''X12''
   \<and> (\<exists>(k, v)\<in>set get_edi_documents. str_in (lower ''x12'') (lower k))
   \<and> list_edi_documents (\<lambda>d. d) (Some ''x12'') None = list_edi_documents (\<lambda>d. d) (Some ''X12'') None"
proof -
  have a: "ascii ''x12''" "ascii ''X12''"
    by (simp_all add: ascii_def)
  have l: "lower ''x12'' = lower ''X12''"
    by (simp add: lower_def lower_char_def)
  have m: "\<exists>(k, v)\<in>set get_edi_documents. str_in (lower ''x12'') (lower k)"
    by code_simp
  show ?thesis
    using list_standard_filter_case [OF a l m, of None "\<lambda>d. d"] a l m
    by (simp add: ascii_opt_def)
qed

text \<open>
  Claim C7 as stated fails: \<open>q\<close> and \<open>Q\<close> differ only in letter case and match no
  standard, and the two outputs differ, since the message quotes the filter.
\<close>

theorem list_standard_filter_case_counterexample:
  "lower ''q'' = lower ''Q''
   \<and> list_edi_documents (\<lambda>d. d) (Some ''q'') None \<noteq> list_edi_documents (\<lambda>d. d) (Some ''Q'') None"
  by code_simp



subsection \<open>The command line\<close>

text \<open>
  Claim C9, as amended. \<open>main\<close> picks one operation by priority and rejects no
  combination of flags (the texts are ASCII): with \<open>-l\<close> it lists the standards;
  otherwise, with a code that is not empty, it searches that code with the show-all
  flag; otherwise (no code, or an empty one) it lists the documents with the two
  optional filters. One of the three cases applies to every combination.
\<close>

theorem main_dispatch:
  assumes "ascii_opt (arg_standard a)" and "ascii_opt (arg_industry a)" and "ascii_opt (arg_code a)"
  shows "(arg_list_standards a \<longrightarrow> main fill a = Inr (list_standards (arg_detailed a)))
     \<and> (\<not> arg_list_standards a \<longrightarrow>
          (\<forall>c. arg_code a = Some c \<and> c \<noteq> [] \<longrightarrow>
             main fill a = Inr (search_edi_code fill c (arg_all a))))
     \<and> (\<not> arg_list_standards a \<and> \<not> truthy (arg_code a) \<longrightarrow>
          main fill a = list_edi_documents fill (arg_standard a) (arg_industry a))
     \<and> (arg_list_standards a \<or> (\<exists>c. arg_code a = Some c \<and> c \<noteq> []) \<or> \<not> truthy (arg_code a))"
  by (cases "arg_code a") (auto simp: main_def)

theorem main_dispatch_witness:
  "main (\<lambda>d. d) \<lparr>arg_standard = Some ''X12'', arg_industry = None, arg_code = Some ''850'',
       arg_all = True, arg_list_standards = True, arg_detailed = False\<rparr>
     = Inr (list_standards False)
   \<and> main (\<lambda>d. d) \<lparr>arg_standard = Some ''X12'', arg_industry = None, arg_code = Some ''850'',
       arg_all = True, arg_list_standards = False, arg_detailed = True\<rparr>
     = Inr (search_edi_code (\<lambda>d. d) ''850'' True)
   \<and> main (\<lambda>d. d) \<lparr>arg_standard = Some ''X12'', arg_industry = Some ''retail'', arg_code = None,
       arg_all = True, arg_list_standards = False, arg_detailed = True\<rparr>
     = list_edi_documents (\<lambda>d. d) (Some ''X12'') (Some ''retail'')
   \<and> main (\<lambda>d. d) \<lparr>arg_standard = None, arg_industry = None, arg_code = Some [],
       arg_all = True, arg_list_standards = False, arg_detailed = False\<rparr>
     = list_edi_documents (\<lambda>d. d) None None"
  using
    main_dispatch [of "\<lparr>arg_standard = Some ''X12'', arg_industry = None, arg_code = Some ''850'',
       arg_all = True, arg_list_standards = True, arg_detailed = False\<rparr>" "\<lambda>d. d"]
    main_dispatch [of "\<lparr>arg_standard = Some ''X12'', arg_industry = None, arg_code = Some ''850'',
       arg_all = True, arg_list_standards = False, arg_detailed = True\<rparr>" "\<lambda>d. d"]
    main_dispatch [of "\<lparr>arg_standard = Some ''X12'', arg_industry = Some ''retail'', arg_code = None,
       arg_all = True, arg_list_standards = False, arg_detailed = True\<rparr>" "\<lambda>d. d"]
    main_dispatch [of "\<lparr>arg_standard = None, arg_industry = None, arg_code = Some [],
       arg_all = True, arg_list_standards = False, arg_detailed = False\<rparr>" "\<lambda>d. d"]
  by (simp add: ascii_opt_def ascii_def del: list_edi_documents.simps)

text \<open>
  Claim C9 as stated fails: with \<open>-c ''\<close> a code value is present, and \<open>main\<close> runs
  the document listing, not the search.
\<close>

theorem main_dispatch_counterexample:
  "main (\<lambda>d. d) \<lparr>arg_standard = None, arg_industry = None, arg_code = Some [],
       arg_all = False, arg_list_standards = False, arg_detailed = False\<rparr>
     = list_edi_documents (\<lambda>d. d) None None
   \<and> main (\<lambda>d. d) \<lparr>arg_standard = None, arg_industry = None, arg_code = Some [],
       arg_all = False, arg_list_standards = False, arg_detailed = False\<rparr>
     \<noteq> Inr (search_edi_code (\<lambda>d. d) [] False)"
proof -
  have "list_edi_documents (\<lambda>d. d) None None \<noteq> Inr (search_edi_code (\<lambda>d. d) [] False)"
    by (simp add: list_body_dataset search_empty list_title_def search_title_def nl_def)
  then show ?thesis
    by (simp add: main_def)
qed

end
